theory Spec2Isabelle
  imports Complex_Main
begin

section \<open>Data model\<close>

subsection \<open>Floating-point values\<close>

text \<open>
  Go's \<open>float64\<close>. A value is a finite number, one of the two infinities, or NaN.
  Finite values are carried by reals and finite arithmetic is exact: rounding, overflow
  to infinity and the sign of zero are not represented. The special values follow
  IEEE 754: any operation on NaN is NaN, \<open>0/0\<close> and \<open>inf - inf\<close> are NaN, a non-zero
  finite value divided by zero is an infinity, and every comparison with NaN is false
  except \<open>!=\<close>, which is true.
\<close>

datatype float64 = Finite real | PosInf | NegInf | NaN

fun fneg :: "float64 \<Rightarrow> float64" where
  "fneg (Finite a) = Finite (- a)"
| "fneg PosInf = NegInf"
| "fneg NegInf = PosInf"
| "fneg NaN = NaN"

fun fadd :: "float64 \<Rightarrow> float64 \<Rightarrow> float64" where
  "fadd (Finite a) (Finite b) = Finite (a + b)"
| "fadd NaN _ = NaN"
| "fadd _ NaN = NaN"
| "fadd PosInf NegInf = NaN"
| "fadd NegInf PosInf = NaN"
| "fadd PosInf _ = PosInf"
| "fadd NegInf _ = NegInf"
| "fadd _ PosInf = PosInf"
| "fadd _ NegInf = NegInf"

definition fsub :: "float64 \<Rightarrow> float64 \<Rightarrow> float64" where
  "fsub a b = fadd a (fneg b)"

text \<open>The sign of a value that is not NaN: \<open>-1\<close>, \<open>0\<close> or \<open>1\<close>.\<close>

fun fsgn :: "float64 \<Rightarrow> int" where
  "fsgn (Finite a) = (if a < 0 then - 1 else if a = 0 then 0 else 1)"
| "fsgn PosInf = 1"
| "fsgn NegInf = - 1"
| "fsgn NaN = 0"

definition infOfSign :: "int \<Rightarrow> float64" where
  "infOfSign s = (if s < 0 then NegInf else PosInf)"

fun fmul :: "float64 \<Rightarrow> float64 \<Rightarrow> float64" where
  "fmul (Finite a) (Finite b) = Finite (a * b)"
| "fmul NaN _ = NaN"
| "fmul _ NaN = NaN"
| "fmul a b = (if fsgn a * fsgn b = 0 then NaN else infOfSign (fsgn a * fsgn b))"

fun fdiv :: "float64 \<Rightarrow> float64 \<Rightarrow> float64" where
  "fdiv (Finite a) (Finite b) =
     (if b \<noteq> 0 then Finite (a / b)
      else if a = 0 then NaN
      else if a < 0 then NegInf else PosInf)"
| "fdiv NaN _ = NaN"
| "fdiv _ NaN = NaN"
| "fdiv (Finite a) _ = Finite 0"
| "fdiv a (Finite b) = infOfSign (fsgn a * (if b < 0 then - 1 else 1))"
| "fdiv _ _ = NaN"

text \<open>Go's \<open>a < b\<close>; \<open>a > b\<close> is \<open>flt b a\<close>.\<close>

fun flt :: "float64 \<Rightarrow> float64 \<Rightarrow> bool" where
  "flt (Finite a) (Finite b) = (a < b)"
| "flt NaN _ = False"
| "flt _ NaN = False"
| "flt NegInf b = (b \<noteq> NegInf)"
| "flt a PosInf = (a \<noteq> PosInf)"
| "flt _ _ = False"

definition fgt :: "float64 \<Rightarrow> float64 \<Rightarrow> bool" where
  "fgt a b = flt b a"

text \<open>Go's \<open>a != b\<close>: true whenever an operand is NaN.\<close>

definition fne :: "float64 \<Rightarrow> float64 \<Rightarrow> bool" where
  "fne a b = (a = NaN \<or> b = NaN \<or> a \<noteq> b)"

text \<open>\<open>math.Sqrt\<close>.\<close>

fun fsqrt :: "float64 \<Rightarrow> float64" where
  "fsqrt (Finite a) = (if a < 0 then NaN else Finite (sqrt a))"
| "fsqrt PosInf = PosInf"
| "fsqrt NegInf = NaN"
| "fsqrt NaN = NaN"

text \<open>\<open>math.IsInf(f, sign)\<close>.\<close>

definition isInf :: "float64 \<Rightarrow> int \<Rightarrow> bool" where
  "isInf f sign = ((sign \<ge> 0 \<and> f = PosInf) \<or> (sign \<le> 0 \<and> f = NegInf))"

text \<open>Go's \<open>a <= b\<close>; \<open>a >= b\<close> is \<open>fle b a\<close>.\<close>

definition fle :: "float64 \<Rightarrow> float64 \<Rightarrow> bool" where
  "fle a b = (a \<noteq> NaN \<and> b \<noteq> NaN \<and> (flt a b \<or> a = b))"

definition fge :: "float64 \<Rightarrow> float64 \<Rightarrow> bool" where
  "fge a b = fle b a"

subsection \<open>Time\<close>

text \<open>
  A \<open>time.Time\<close> is an instant in UTC, counted in nanoseconds since the Unix epoch.
  \<open>AddDate(0, 0, n)\<close> moves it by \<open>n\<close> calendar days and \<open>Before\<close> is \<open><\<close>.
\<close>

type_synonym time = int

definition nsPerDay :: int where
  "nsPerDay = 86400 * 1000000000"

definition addDays :: "time \<Rightarrow> int \<Rightarrow> time" where
  "addDays t n = t + n * nsPerDay"

text \<open>The zero \<open>time.Time{}\<close>: January 1 of year 1, 00:00 UTC.\<close>

definition zeroTime :: time where
  "zeroTime = - 62135596800 * 1000000000"

text \<open>
  Go's \<open>time.Weekday\<close> is an integer type with \<open>Sunday = 0\<close>, ..., \<open>Saturday = 6\<close>.
  \<open>Weekday()\<close> of an instant: the Unix epoch fell on a Thursday.
\<close>

type_synonym weekday = int

definition Sunday :: weekday where "Sunday = 0"
definition Monday :: weekday where "Monday = 1"
definition Tuesday :: weekday where "Tuesday = 2"
definition Wednesday :: weekday where "Wednesday = 3"
definition Thursday :: weekday where "Thursday = 4"
definition Friday :: weekday where "Friday = 5"
definition Saturday :: weekday where "Saturday = 6"

definition Weekday :: "time \<Rightarrow> weekday" where
  "Weekday t = (t div nsPerDay + 4) mod 7"

type_synonym timePriceMap = "time \<rightharpoonup> float64"

subsection \<open>Price records and series\<close>

text \<open>
  An \<open>ohlc.Record\<close>, with the two fields the program reads. A price series is Go's
  \<open>map[time.Time]float64\<close>.
\<close>

record ohlcRecord =
  Timestamp :: time
  Close :: float64

text \<open>\<open>sessionEnd = time.Duration(21) * time.Hour\<close>, in nanoseconds.\<close>

definition sessionEnd :: int where
  "sessionEnd = 21 * 3600 * 1000000000"

text \<open>
  Modelled from the spec: \<open>commons.GetTimeOfDay\<close> and \<open>commons.GetDate\<close> belong to a
  package outside the sources. The first is the time elapsed since midnight, the second
  the calendar date, that is the same day at midnight (time-of-day discarded).
\<close>

definition getTimeOfDay :: "time \<Rightarrow> int" where
  "getTimeOfDay t = t mod nsPerDay"

definition getDate :: "time \<Rightarrow> time" where
  "getDate t = t - t mod nsPerDay"

subsection \<open>Configuration and external functions\<close>

text \<open>
  The fields of the global \<open>configuration\<close> that the pipeline reads. The functions take
  the configuration as an argument. An \<open>Asset\<close> has a symbol and an optional start date
  of its own (the Go field \<open>Asset.StartDate\<close>, a pointer).
\<close>

record Asset =
  Symbol :: string
  AssetStartDate :: "time option"

record Configuration =
  StartDate :: time
  SplitDate :: time
  EndDate :: time
  IndexSymbol :: string
  EnableMomentum :: bool
  EnableReference :: bool
  EnableIndex :: bool
  EnableWeekdays :: bool
  EnableWeekdayFilter :: bool
  WeekdayFilter :: weekday
  HoldingTime :: int
  LongThreshold :: float64
  ShortThreshold :: float64
  RiskFreeRate :: float64
  Assets :: "Asset list"

text \<open>
  Functions of packages outside the sources (\<open>commons\<close>, \<open>fmt\<close>), taken as parameters:
  nothing is assumed about what they compute.
\<close>

record library =
  Mean :: "float64 list \<Rightarrow> float64"
  StdDev :: "float64 list \<Rightarrow> float64"
  Median :: "float64 list \<Rightarrow> float64"
  FormatPercentage :: "float64 \<Rightarrow> int \<Rightarrow> string"
  Sprintf :: "string \<Rightarrow> float64 \<Rightarrow> string"
  White :: "string \<Rightarrow> string"
  Green :: "string \<Rightarrow> string"
  Red :: "string \<Rightarrow> string"

text \<open>
  A fitted \<open>linear.LeastSquares\<close>: its parameter vector and its \<open>Predict\<close>, which
  returns the predicted value (element 0 of the slice it returns in Go) or fails.
\<close>

record leastSquares =
  Parameters :: "float64 list"
  Predict :: "float64 list \<Rightarrow> float64 option"

text \<open>
  The ways a run stops: \<open>commons.Fatalf\<close> after a failed fit or prediction, and the
  run-time panic of an index out of range.
\<close>

datatype error = FitFailed | PredictionFailed | IndexOutOfRange

definition daysPerWeek :: int where
  "daysPerWeek = 7"

definition bitcoinSymbol :: string where
  "bitcoinSymbol = ''BTCUSDT''"

definition featureHighlightThreshold :: float64 where
  "featureHighlightThreshold = Finite (5 / 100)"

definition weeksPerYear :: float64 where
  "weeksPerYear = Finite 52"

section \<open>Building a price series\<close>

text \<open>
  The loop of \<open>loadDailyRecords\<close> over the records read, updating \<open>output\<close>.
  \<open>startDate\<close> is a pointer in Go: \<open>None\<close> is \<open>nil\<close>.
\<close>

fun loadDailyRecordsLoop ::
  "time option \<Rightarrow> bool \<Rightarrow> ohlcRecord list \<Rightarrow> timePriceMap \<Rightarrow> timePriceMap" where
  "loadDailyRecordsLoop startDate sessionEndFilter [] output = output"
| "loadDailyRecordsLoop startDate sessionEndFilter (record # records) output =
     (if (case startDate of None \<Rightarrow> False | Some s \<Rightarrow> Timestamp record < s)
      then loadDailyRecordsLoop startDate sessionEndFilter records output
      else if sessionEndFilter
      then (if getTimeOfDay (Timestamp record) = sessionEnd
            then loadDailyRecordsLoop startDate sessionEndFilter records
                   (output(getDate (Timestamp record) \<mapsto> Close record))
            else loadDailyRecordsLoop startDate sessionEndFilter records output)
      else loadDailyRecordsLoop startDate sessionEndFilter records
             (output(Timestamp record \<mapsto> Close record)))"

text \<open>
  \<open>loadDailyRecords\<close>. The two readers of the \<open>ohlc\<close> package are the parameter
  \<open>readRecords\<close>, applied to the \<open>barchart\<close> flag and the symbol.
\<close>

definition loadDailyRecords ::
  "(bool \<Rightarrow> string \<Rightarrow> ohlcRecord list) \<Rightarrow> string \<Rightarrow> time option \<Rightarrow> bool \<Rightarrow> bool \<Rightarrow> timePriceMap" where
  "loadDailyRecords readRecords symbol startDate sessionEndFilter barchart =
     loadDailyRecordsLoop startDate sessionEndFilter (readRecords barchart symbol) Map.empty"

section \<open>Closest-prior lookup\<close>

text \<open>
  \<open>getClosestRecord\<close>: the body of \<open>for range 10\<close>, with the number of iterations left.
  The result is the triple the Go function returns.
\<close>

fun getClosestRecordLoop :: "nat \<Rightarrow> time \<Rightarrow> timePriceMap \<Rightarrow> time \<times> float64 \<times> bool" where
  "getClosestRecordLoop 0 date indexMap = (zeroTime, NaN, False)"
| "getClosestRecordLoop (Suc n) date indexMap =
     (case indexMap date of
        Some close \<Rightarrow> (date, close, True)
      | None \<Rightarrow> getClosestRecordLoop n (addDays date (- 1)) indexMap)"

definition getClosestRecord :: "time \<Rightarrow> timePriceMap \<Rightarrow> time \<times> float64 \<times> bool" where
  "getClosestRecord date indexMap = getClosestRecordLoop 10 date indexMap"

section \<open>Feature and label construction\<close>

definition getRateOfChange :: "float64 \<Rightarrow> float64 \<Rightarrow> float64" where
  "getRateOfChange a b = fsub (fdiv a b) (Finite 1)"

text \<open>
  The feature vector of one day as \<open>getRegressionCells\<close> appends it: the enabled
  momentum features, then the loop \<open>for j := range daysPerWeek\<close>.
\<close>

definition weekdayIndex :: "weekday \<Rightarrow> int" where
  "weekdayIndex weekday = (weekday + 6) mod daysPerWeek"

definition weekdayFeatures :: "weekday \<Rightarrow> float64 list" where
  "weekdayFeatures weekday =
     map (\<lambda>j. if j = weekdayIndex weekday then Finite 1 else Finite 0) [0..daysPerWeek - 1]"

definition dailyFeatures ::
  "Configuration \<Rightarrow> float64 \<Rightarrow> float64 \<Rightarrow> float64 \<Rightarrow> weekday \<Rightarrow> float64 list" where
  "dailyFeatures cfg assetMomentum referenceMomentum indexMomentum weekday =
     (if EnableMomentum cfg then [assetMomentum] else [])
     @ (if EnableReference cfg then [referenceMomentum] else [])
     @ (if EnableIndex cfg then [indexMomentum] else [])
     @ (if EnableWeekdays cfg then weekdayFeatures weekday else [])"

text \<open>
  One iteration of the date loop of \<open>getRegressionCells\<close>, up to the label: \<open>None\<close> is
  a \<open>continue\<close>, otherwise the feature vector and the label of the day.
\<close>

definition dailyExample ::
  "Configuration \<Rightarrow> string \<Rightarrow> timePriceMap \<Rightarrow> timePriceMap \<Rightarrow> timePriceMap \<Rightarrow> time
     \<Rightarrow> (float64 list \<times> float64) option" where
  "dailyExample cfg symbol assetMap referenceMap indexMap date =
     (let weekday = Weekday date in
      if EnableWeekdayFilter cfg \<and> weekday \<noteq> WeekdayFilter cfg then None
      else case getClosestRecord date indexMap of
        (currentIndexCloseDate, currentIndexClose, exists) \<Rightarrow>
      if \<not> exists then None
      else let previousIndexCloseDate = addDays currentIndexCloseDate (- 1) in
      case getClosestRecord previousIndexCloseDate indexMap of
        (_, previousIndexClose, exists) \<Rightarrow>
      if \<not> exists then None
      else case assetMap date of None \<Rightarrow> None | Some currentAssetClose \<Rightarrow>
      let previousDate = addDays date (- 1) in
      case assetMap previousDate of None \<Rightarrow> None | Some previousAssetClose \<Rightarrow>
      let nextCloseTimestamp = addDays date (HoldingTime cfg) in
      case assetMap nextCloseTimestamp of None \<Rightarrow> None | Some nextAssetClose \<Rightarrow>
      case referenceMap date of None \<Rightarrow> None | Some currentReferenceClose \<Rightarrow>
      case referenceMap previousDate of None \<Rightarrow> None | Some previousReferenceClose \<Rightarrow>
      let assetMomentum = getRateOfChange currentAssetClose previousAssetClose;
          referenceMomentum =
            (if symbol \<noteq> bitcoinSymbol
             then getRateOfChange currentReferenceClose previousReferenceClose
             else Finite 0);
          indexMomentum = getRateOfChange currentIndexClose previousIndexClose;
          label = getRateOfChange nextAssetClose currentAssetClose
      in Some (dailyFeatures cfg assetMomentum referenceMomentum indexMomentum weekday, label))"

record partitions =
  trainingFeatures :: "float64 list list"
  trainingLabels :: "float64 list"
  testFeatures :: "float64 list list"
  testLabels :: "float64 list"

text \<open>The end of an iteration: the example goes to one of the two partitions.\<close>

definition appendExample ::
  "Configuration \<Rightarrow> time \<Rightarrow> (float64 list \<times> float64) option \<Rightarrow> partitions \<Rightarrow> partitions" where
  "appendExample cfg date example ps =
     (case example of
        None \<Rightarrow> ps
      | Some (features, label) \<Rightarrow>
          if date < SplitDate cfg
          then ps\<lparr>trainingFeatures := trainingFeatures ps @ [features],
                  trainingLabels := trainingLabels ps @ [label]\<rparr>
          else ps\<lparr>testFeatures := testFeatures ps @ [features],
                  testLabels := testLabels ps @ [label]\<rparr>)"

text \<open>
  \<open>for date := StartDate; date.Before(EndDate); date = date.AddDate(0, 0, 1)\<close>.
\<close>

function regressionLoop ::
  "Configuration \<Rightarrow> string \<Rightarrow> timePriceMap \<Rightarrow> timePriceMap \<Rightarrow> timePriceMap \<Rightarrow> time
     \<Rightarrow> partitions \<Rightarrow> partitions" where
  "regressionLoop cfg symbol assetMap referenceMap indexMap date ps =
     (if date < EndDate cfg
      then regressionLoop cfg symbol assetMap referenceMap indexMap (addDays date 1)
             (appendExample cfg date
                (dailyExample cfg symbol assetMap referenceMap indexMap date) ps)
      else ps)"
  by pat_completeness auto
termination
  by (relation "measure (\<lambda>(cfg, symbol, assetMap, referenceMap, indexMap, date, ps).
        nat (EndDate cfg - date))")
     (auto simp: addDays_def nsPerDay_def)

declare regressionLoop.simps [simp del]

definition emptyPartitions :: partitions where
  "emptyPartitions =
     \<lparr>trainingFeatures = [], trainingLabels = [], testFeatures = [], testLabels = []\<rparr>"

definition buildPartitions ::
  "Configuration \<Rightarrow> string \<Rightarrow> timePriceMap \<Rightarrow> timePriceMap \<Rightarrow> timePriceMap \<Rightarrow> partitions" where
  "buildPartitions cfg symbol assetMap referenceMap indexMap =
     regressionLoop cfg symbol assetMap referenceMap indexMap (StartDate cfg) emptyPartitions"

section \<open>Scoring, backtest and performance summary\<close>

text \<open>
  The loop \<open>for i := range features\<close> of \<open>getR2Score\<close>, at index \<open>i\<close> with the rest
  of \<open>features\<close>, carrying \<open>residualSum\<close> and \<open>totalSum\<close>. Reading \<open>labels[i]\<close> past
  the end panics; a failed prediction is fatal.
\<close>

fun getR2ScoreLoop ::
  "(float64 list \<Rightarrow> float64 option) \<Rightarrow> float64 list \<Rightarrow> float64 \<Rightarrow> nat \<Rightarrow> float64 list list
     \<Rightarrow> float64 \<times> float64 \<Rightarrow> error + (float64 \<times> float64)" where
  "getR2ScoreLoop predict labels meanObserved i [] (residualSum, totalSum) =
     Inr (residualSum, totalSum)"
| "getR2ScoreLoop predict labels meanObserved i (f # features) (residualSum, totalSum) =
     (if i \<ge> length labels then Inl IndexOutOfRange
      else let label = labels ! i in
      case predict f of
        None \<Rightarrow> Inl PredictionFailed
      | Some prediction \<Rightarrow>
          let residualDelta = fsub label prediction;
              totalDelta = fsub label meanObserved
          in getR2ScoreLoop predict labels meanObserved (Suc i) features
               (fadd residualSum (fmul residualDelta residualDelta),
                fadd totalSum (fmul totalDelta totalDelta)))"

definition getR2Score ::
  "library \<Rightarrow> float64 list list \<Rightarrow> float64 list \<Rightarrow> leastSquares \<Rightarrow> error + float64" where
  "getR2Score lib features labels model =
     (let meanObserved = Mean lib labels in
      case getR2ScoreLoop (Predict model) labels meanObserved 0 features (Finite 0, Finite 0) of
        Inl e \<Rightarrow> Inl e
      | Inr (residualSum, totalSum) \<Rightarrow> Inr (fsub (Finite 1) (fdiv residualSum totalSum)))"

text \<open>
  The loop of \<open>runBacktest\<close>, carrying \<open>longReturns\<close> and \<open>shortReturns\<close>. Here the
  prediction comes before \<open>labels[i]\<close>.
\<close>

fun runBacktestLoop ::
  "Configuration \<Rightarrow> (float64 list \<Rightarrow> float64 option) \<Rightarrow> float64 list \<Rightarrow> nat \<Rightarrow> float64 list list
     \<Rightarrow> float64 list \<times> float64 list \<Rightarrow> error + (float64 list \<times> float64 list)" where
  "runBacktestLoop cfg predict labels i [] (longReturns, shortReturns) =
     Inr (longReturns, shortReturns)"
| "runBacktestLoop cfg predict labels i (f # features) (longReturns, shortReturns) =
     (case predict f of
        None \<Rightarrow> Inl PredictionFailed
      | Some signal \<Rightarrow>
          if i \<ge> length labels then Inl IndexOutOfRange
          else let label = labels ! i in
          runBacktestLoop cfg predict labels (Suc i) features
            (if fgt signal (LongThreshold cfg)
             then longReturns @ [label]
             else longReturns @ [Finite 0],
             if flt signal (ShortThreshold cfg)
             then shortReturns @ [fsub (fdiv (Finite 1) (fadd (Finite 1) label)) (Finite 1)]
             else shortReturns @ [Finite 0]))"

definition runBacktest ::
  "Configuration \<Rightarrow> float64 list list \<Rightarrow> float64 list \<Rightarrow> leastSquares
     \<Rightarrow> error + (float64 list \<times> float64 list)" where
  "runBacktest cfg features labels model =
     runBacktestLoop cfg (Predict model) labels 0 features ([], [])"

definition getSharpeRatio :: "Configuration \<Rightarrow> library \<Rightarrow> float64 list \<Rightarrow> float64" where
  "getSharpeRatio cfg lib weeklyReturns =
     (if length weeklyReturns < 2 then NaN
      else let meanReturn = Mean lib weeklyReturns;
               stdDev = StdDev lib weeklyReturns;
               riskFreeRate = fdiv (RiskFreeRate cfg) weeksPerYear;
               weeklySharpeRatio = fdiv (fsub meanReturn riskFreeRate) stdDev;
               sharpeRatio = fmul (fsqrt weeksPerYear) weeklySharpeRatio
           in if isInf sharpeRatio 1 \<or> isInf sharpeRatio (- 1) then NaN else sharpeRatio)"

definition analyzeReturns ::
  "Configuration \<Rightarrow> library \<Rightarrow> float64 list \<Rightarrow> float64 \<times> float64" where
  "analyzeReturns cfg lib returns =
     (let totalReturn = foldl fadd (Finite 0) returns;
          sharpeRatio = getSharpeRatio cfg lib returns
      in (totalReturn, sharpeRatio))"

section \<open>The report row of one asset\<close>

text \<open>The closures of \<open>getRegressionCells\<close>, each returning the extended \<open>cells\<close>.\<close>

definition addParameter :: "library \<Rightarrow> leastSquares \<Rightarrow> nat \<Rightarrow> string list \<Rightarrow> error + string list" where
  "addParameter lib model index cells =
     (if index \<ge> length (Parameters model) then Inl IndexOutOfRange
      else let parameter = Parameters model ! index;
               cell = (if fne parameter (Finite 0)
                       then Sprintf lib ''%.4f'' parameter
                       else ''-'');
               cell = (if fge parameter featureHighlightThreshold then Green lib cell
                       else if fle parameter (fneg featureHighlightThreshold) then Red lib cell
                       else cell)
           in Inr (cells @ [cell]))"

text \<open>\<open>for j := 1; j < len(model.Parameters); j++ { addParameter(j) }\<close>, by the indices left.\<close>

fun addParameters :: "library \<Rightarrow> leastSquares \<Rightarrow> nat list \<Rightarrow> string list \<Rightarrow> error + string list" where
  "addParameters lib model [] cells = Inr cells"
| "addParameters lib model (j # js) cells =
     (case addParameter lib model j cells of
        Inl e \<Rightarrow> Inl e
      | Inr cells' \<Rightarrow> addParameters lib model js cells')"

definition addR2Score :: "library \<Rightarrow> float64 \<Rightarrow> string list \<Rightarrow> string list" where
  "addR2Score lib r2Score cells = cells @ [FormatPercentage lib r2Score 2]"

definition addReturns :: "Configuration \<Rightarrow> library \<Rightarrow> float64 list \<Rightarrow> string list \<Rightarrow> string list" where
  "addReturns cfg lib returns cells =
     (case analyzeReturns cfg lib returns of
        (totalReturn, sharpeRatio) \<Rightarrow>
          let (totalReturnString, sharpeRatioString) =
                (if fne totalReturn (Finite 0)
                 then (FormatPercentage lib totalReturn 2, Sprintf lib ''%.2f'' sharpeRatio)
                 else (''-'', ''-''))
          in cells @ [totalReturnString, sharpeRatioString])"

record regressionData =
  cells :: "string list"
  oosR2Score :: float64

text \<open>
  \<open>getRegressionCells\<close>. \<open>learn\<close> stands for \<open>linear.NewLeastSquares\<close> followed by
  \<open>model.Learn()\<close> on the training partition: the fitted model, or \<open>None\<close> when the
  fit returns an error.
\<close>

definition getRegressionCells ::
  "Configuration \<Rightarrow> library \<Rightarrow> (bool \<Rightarrow> string \<Rightarrow> ohlcRecord list)
     \<Rightarrow> (float64 list list \<Rightarrow> float64 list \<Rightarrow> leastSquares option)
     \<Rightarrow> string \<Rightarrow> time option \<Rightarrow> timePriceMap \<Rightarrow> timePriceMap \<Rightarrow> error + regressionData" where
  "getRegressionCells cfg lib readRecords learn symbol startDate referenceMap indexMap =
     (let assetMap = loadDailyRecords readRecords symbol startDate True False;
          ps = buildPartitions cfg symbol assetMap referenceMap indexMap
      in case learn (trainingFeatures ps) (trainingLabels ps) of
        None \<Rightarrow> Inl FitFailed
      | Some model \<Rightarrow>
      case addParameters lib model [1..<length (Parameters model)] [White lib symbol] of
        Inl e \<Rightarrow> Inl e
      | Inr cells1 \<Rightarrow>
      case addParameter lib model 0 cells1 of
        Inl e \<Rightarrow> Inl e
      | Inr cells2 \<Rightarrow>
      case getR2Score lib (trainingFeatures ps) (trainingLabels ps) model of
        Inl e \<Rightarrow> Inl e
      | Inr isR2 \<Rightarrow>
      case getR2Score lib (testFeatures ps) (testLabels ps) model of
        Inl e \<Rightarrow> Inl e
      | Inr oosR2 \<Rightarrow>
      case runBacktest cfg (testFeatures ps) (testLabels ps) model of
        Inl e \<Rightarrow> Inl e
      | Inr (longReturns, shortReturns) \<Rightarrow>
          Inr \<lparr>cells = addReturns cfg lib shortReturns
                         (addReturns cfg lib longReturns
                            (addR2Score lib oosR2 (addR2Score lib isR2 cells2))),
               oosR2Score = oosR2\<rparr>)"

section \<open>The report\<close>

text \<open>
  The results of the assets, as \<open>commons.ParallelMap\<close> collects them in the order of
  the assets. A fatal error in one asset ends the run; of several, the model reports the
  first in that order.
\<close>

fun collectData :: "(error + regressionData) list \<Rightarrow> error + regressionData list" where
  "collectData [] = Inr []"
| "collectData (Inl e # rest) = Inl e"
| "collectData (Inr d # rest) =
     (case collectData rest of Inl e \<Rightarrow> Inl e | Inr ds \<Rightarrow> Inr (d # ds))"

text \<open>
  \<open>analyzeData\<close>, up to what it prints: the rows of the table and the median of the
  out-of-sample scores.
\<close>

definition analyzeData ::
  "Configuration \<Rightarrow> library \<Rightarrow> (bool \<Rightarrow> string \<Rightarrow> ohlcRecord list)
     \<Rightarrow> (float64 list list \<Rightarrow> float64 list \<Rightarrow> leastSquares option)
     \<Rightarrow> error + (string list list \<times> float64)" where
  "analyzeData cfg lib readRecords learn =
     (let referenceMap = loadDailyRecords readRecords bitcoinSymbol None True False;
          indexMap = loadDailyRecords readRecords (IndexSymbol cfg) None False True
      in case collectData
                (map (\<lambda>a. getRegressionCells cfg lib readRecords learn
                             (Symbol a) (AssetStartDate a) referenceMap indexMap)
                     (Assets cfg)) of
        Inl e \<Rightarrow> Inl e
      | Inr data \<Rightarrow>
          let rows = map cells data;
              oosR2Scores = map oosR2Score data;
              medianR2Score = Median lib oosR2Scores
          in Inr (rows, medianR2Score))"

section \<open>Notions used in the statements\<close>

text \<open>
  A record that the loop of \<open>loadDailyRecords\<close> stores in session-close mode: it is not
  before the start date, if there is one, and its time of day is the session end.
\<close>

definition retained :: "time option \<Rightarrow> ohlcRecord \<Rightarrow> bool" where
  "retained startDate r =
     (\<not> (case startDate of None \<Rightarrow> False | Some s \<Rightarrow> Timestamp r < s)
      \<and> getTimeOfDay (Timestamp r) = sessionEnd)"

text \<open>The dates that the date loop of \<open>getRegressionCells\<close> visits, in order.\<close>

function loopDates :: "time \<Rightarrow> time \<Rightarrow> time list" where
  "loopDates date endDate =
     (if date < endDate then date # loopDates (addDays date 1) endDate else [])"
  by pat_completeness auto
termination
  by (relation "measure (\<lambda>(date, endDate). nat (endDate - date))")
     (auto simp: addDays_def nsPerDay_def)

declare loopDates.simps [simp del]

section \<open>Sample inputs\<close>

text \<open>
  Concrete inputs on which the theorems below are instantiated: a configuration, and an
  instance of the external functions with the arithmetic mean, the population standard
  deviation and placeholder formatting.
\<close>

definition sampleConfiguration :: Configuration where
  "sampleConfiguration =
     \<lparr>StartDate = 0, SplitDate = addDays 0 2, EndDate = addDays 0 4,
      IndexSymbol = ''SPX'', EnableMomentum = True, EnableReference = True, EnableIndex = True,
      EnableWeekdays = True, EnableWeekdayFilter = False, WeekdayFilter = Tuesday,
      HoldingTime = 1, LongThreshold = Finite (1 / 100), ShortThreshold = Finite (- 1 / 100),
      RiskFreeRate = Finite (4 / 100),
      Assets = [\<lparr>Symbol = ''ETHUSDT'', AssetStartDate = None\<rparr>]\<rparr>"

definition sampleMean :: "float64 list \<Rightarrow> float64" where
  "sampleMean xs = fdiv (foldl fadd (Finite 0) xs) (Finite (real (length xs)))"

definition sampleStdDev :: "float64 list \<Rightarrow> float64" where
  "sampleStdDev xs =
     (let m = sampleMean xs
      in fsqrt (fdiv (foldl fadd (Finite 0) (map (\<lambda>x. fmul (fsub x m) (fsub x m)) xs))
                     (Finite (real (length xs)))))"

definition sampleLibrary :: library where
  "sampleLibrary =
     \<lparr>Mean = sampleMean, StdDev = sampleStdDev,
      Median = (\<lambda>xs. case xs of [] \<Rightarrow> NaN | x # _ \<Rightarrow> x),
      FormatPercentage = (\<lambda>x digits. ''%''), Sprintf = (\<lambda>format x. format),
      White = (\<lambda>c. c), Green = (\<lambda>c. c), Red = (\<lambda>c. c)\<rparr>"

text \<open>A model whose prediction is the single feature it is given.\<close>

definition sampleModel :: leastSquares where
  "sampleModel =
     \<lparr>Parameters = [Finite 0, Finite 1],
      Predict = (\<lambda>x. case x of [v] \<Rightarrow> Some v | _ \<Rightarrow> None)\<rparr>"

text \<open>
  A configuration with the asset momentum as only feature and the split date at the end
  date, so that no date reaches the test partition, and a fit that returns the sample
  model.
\<close>

definition sampleInSampleOnly :: Configuration where
  "sampleInSampleOnly =
     sampleConfiguration\<lparr>SplitDate := addDays 0 4, EnableReference := False,
                          EnableIndex := False, EnableWeekdays := False\<rparr>"

definition sampleLearn :: "float64 list list \<Rightarrow> float64 list \<Rightarrow> leastSquares option" where
  "sampleLearn features labels = Some sampleModel"

text \<open>
  Price records of three symbols: daily bars of the index on days 0, 1 and 4, and
  hourly bars of the reference asset and of another asset around the session end of
  the days -1 to 5.
\<close>

definition sampleReadRecords :: "bool \<Rightarrow> string \<Rightarrow> ohlcRecord list" where
  "sampleReadRecords barchart symbol =
     (if barchart
      then [\<lparr>Timestamp = addDays 0 0, Close = Finite 100\<rparr>,
            \<lparr>Timestamp = addDays 0 1, Close = Finite 110\<rparr>,
            \<lparr>Timestamp = addDays 0 4, Close = Finite 220\<rparr>]
      else if symbol = bitcoinSymbol
      then [\<lparr>Timestamp = addDays 0 (- 1) + sessionEnd, Close = Finite 50\<rparr>,
            \<lparr>Timestamp = addDays 0 0 + sessionEnd, Close = Finite 100\<rparr>,
            \<lparr>Timestamp = addDays 0 1 + sessionEnd, Close = Finite 100\<rparr>,
            \<lparr>Timestamp = addDays 0 2 + sessionEnd, Close = Finite 50\<rparr>,
            \<lparr>Timestamp = addDays 0 3 + sessionEnd, Close = Finite 100\<rparr>,
            \<lparr>Timestamp = addDays 0 4 + sessionEnd, Close = Finite 200\<rparr>,
            \<lparr>Timestamp = addDays 0 5 + sessionEnd, Close = Finite 100\<rparr>]
      else [\<lparr>Timestamp = addDays 0 (- 1) + sessionEnd, Close = Finite 100\<rparr>,
            \<lparr>Timestamp = addDays 0 0 + sessionEnd - 3600000000000, Close = Finite 105\<rparr>,
            \<lparr>Timestamp = addDays 0 0 + sessionEnd, Close = Finite 110\<rparr>,
            \<lparr>Timestamp = addDays 0 1 + sessionEnd, Close = Finite 121\<rparr>,
            \<lparr>Timestamp = addDays 0 2 + sessionEnd, Close = Finite 242\<rparr>,
            \<lparr>Timestamp = addDays 0 3 + sessionEnd, Close = Finite 121\<rparr>,
            \<lparr>Timestamp = addDays 0 4 + sessionEnd, Close = Finite 242\<rparr>,
            \<lparr>Timestamp = addDays 0 5 + sessionEnd, Close = Finite 484\<rparr>])"

definition sampleAssetMap :: timePriceMap where
  "sampleAssetMap = loadDailyRecords sampleReadRecords ''ETHUSDT'' None True False"

definition sampleReferenceMap :: timePriceMap where
  "sampleReferenceMap = loadDailyRecords sampleReadRecords bitcoinSymbol None True False"

definition sampleIndexMap :: timePriceMap where
  "sampleIndexMap = loadDailyRecords sampleReadRecords ''SPX'' None False True"

section \<open>Properties of the closest-prior lookup\<close>

lemma addDays_back: "addDays (addDays q (- int j)) (- 1) = addDays q (- int (Suc j))"
  by (simp add: addDays_def algebra_simps)

lemma getClosestRecordLoop_hit:
  assumes "k < n"
    and "indexMap (addDays q (- int k)) = Some p"
    and "\<And>j. j < k \<Longrightarrow> indexMap (addDays q (- int j)) = None"
  shows "getClosestRecordLoop n q indexMap = (addDays q (- int k), p, True)"
  using assms
proof (induction n arbitrary: q k)
  case 0
  then show ?case by simp
next
  case (Suc n)
  show ?case
  proof (cases k)
    case 0
    with Suc.prems(2) show ?thesis by (simp add: addDays_def)
  next
    case (Suc k')
    have here: "indexMap q = None"
      using Suc.prems(3) [of 0] Suc by (simp add: addDays_def)
    have lt: "k' < n" using Suc.prems(1) Suc by simp
    have hit: "indexMap (addDays (addDays q (- 1)) (- int k')) = Some p"
      using Suc.prems(2) Suc by (simp add: addDays_def algebra_simps)
    have miss: "\<And>j. j < k' \<Longrightarrow> indexMap (addDays (addDays q (- 1)) (- int j)) = None"
    proof -
      fix j assume "j < k'"
      then have "Suc j < k" using Suc by simp
      from Suc.prems(3) [OF this] show "indexMap (addDays (addDays q (- 1)) (- int j)) = None"
        by (simp add: addDays_def algebra_simps)
    qed
    have "getClosestRecordLoop n (addDays q (- 1)) indexMap
            = (addDays (addDays q (- 1)) (- int k'), p, True)"
      by (rule Suc.IH [OF lt hit miss])
    then show ?thesis using here Suc by (simp add: addDays_def algebra_simps)
  qed
qed

lemma getClosestRecordLoop_miss:
  assumes "\<And>j. j < n \<Longrightarrow> indexMap (addDays q (- int j)) = None"
  shows "getClosestRecordLoop n q indexMap = (zeroTime, NaN, False)"
  using assms
proof (induction n arbitrary: q)
  case 0
  then show ?case by simp
next
  case (Suc n)
  have here: "indexMap q = None"
    using Suc.prems [of 0] by (simp add: addDays_def)
  have "\<And>j. j < n \<Longrightarrow> indexMap (addDays (addDays q (- 1)) (- int j)) = None"
  proof -
    fix j assume "j < n"
    then have "Suc j < Suc n" by simp
    from Suc.prems [OF this] show "indexMap (addDays (addDays q (- 1)) (- int j)) = None"
      by (simp add: addDays_def algebra_simps)
  qed
  then have "getClosestRecordLoop n (addDays q (- 1)) indexMap = (zeroTime, NaN, False)"
    by (rule Suc.IH)
  then show ?case using here by simp
qed

text \<open>
  Claim C1. The lookup returns the price at the target date itself when the series has
  one. If the series has a price at \<open>D\<close> and none on the nine days after \<open>D\<close>, a query
  for \<open>D + k\<close> days with \<open>1 \<le> k \<le> 9\<close> returns the price at \<open>D\<close> together with \<open>D\<close> as
  the date found. If the series has no price on the target date nor on any of the nine
  days before it, the lookup reports not-found: the flag is false, the price is NaN and
  the date is the zero time; no entry of the series is returned.
\<close>

theorem getClosestRecord_closest_prior:
  "(indexMap q = Some p \<longrightarrow> getClosestRecord q indexMap = (q, p, True))
   \<and> (indexMap D = Some p \<and> (\<forall>j\<in>{1..9}. indexMap (addDays D j) = None) \<and> k \<in> {1..9}
        \<longrightarrow> getClosestRecord (addDays D k) indexMap = (D, p, True))
   \<and> ((\<forall>j\<in>{0..9}. indexMap (addDays q (- j)) = None)
        \<longrightarrow> getClosestRecord q indexMap = (zeroTime, NaN, False))"
proof (intro conjI impI)
  assume "indexMap q = Some p"
  then show "getClosestRecord q indexMap = (q, p, True)"
    by (simp add: getClosestRecord_def numeral_eq_Suc)
next
  assume a: "indexMap D = Some p \<and> (\<forall>j\<in>{1..9}. indexMap (addDays D j) = None) \<and> k \<in> {1..9}"
  then have k: "1 \<le> k" "k \<le> 9" by simp_all
  have landed: "addDays (addDays D k) (- int (nat k)) = D"
    using k by (simp add: addDays_def algebra_simps)
  have hit: "indexMap (addDays (addDays D k) (- int (nat k))) = Some p"
    using a landed by simp
  have miss: "\<And>j. j < nat k \<Longrightarrow> indexMap (addDays (addDays D k) (- int j)) = None"
  proof -
    fix j assume j: "j < nat k"
    have eq: "addDays (addDays D k) (- int j) = addDays D (k - int j)"
      by (simp add: addDays_def algebra_simps)
    have "k - int j \<in> {1..9}" using j k by auto
    with a eq show "indexMap (addDays (addDays D k) (- int j)) = None" by simp
  qed
  have "nat k < 10" using k by simp
  from getClosestRecordLoop_hit
         [of "nat k" 10 indexMap "addDays D k" p, OF this hit miss] landed
  show "getClosestRecord (addDays D k) indexMap = (D, p, True)"
    by (simp add: getClosestRecord_def)
next
  assume a: "\<forall>j\<in>{0..9}. indexMap (addDays q (- j)) = None"
  have "\<And>j. j < 10 \<Longrightarrow> indexMap (addDays q (- int j)) = None"
  proof -
    fix j :: nat assume "j < 10"
    then have "int j \<in> {0..9}" by auto
    with a show "indexMap (addDays q (- int j)) = None" by blast
  qed
  then show "getClosestRecord q indexMap = (zeroTime, NaN, False)"
    unfolding getClosestRecord_def by (rule getClosestRecordLoop_miss)
qed

theorem getClosestRecord_closest_prior_witness:
  "getClosestRecord 0 [0 \<mapsto> Finite 100] = (0, Finite 100, True)
   \<and> getClosestRecord (addDays 0 9) [0 \<mapsto> Finite 100] = (0, Finite 100, True)
   \<and> getClosestRecord (addDays 0 10) [0 \<mapsto> Finite 100] = (zeroTime, NaN, False)"
  using getClosestRecord_closest_prior [of "[0 \<mapsto> Finite 100]" 0 "Finite 100" 0 9]
    getClosestRecord_closest_prior [of "[0 \<mapsto> Finite 100]" "addDays 0 10" "Finite 100" 0 9]
  by (simp add: addDays_def nsPerDay_def)

section \<open>Properties of the price series\<close>

lemma loadDailyRecordsLoop_collapse:
  "loadDailyRecordsLoop startDate True records acc
     = acc ++ map_of (rev (map (\<lambda>r. (getDate (Timestamp r), Close r))
                               (filter (retained startDate) records)))"
  by (induction records arbitrary: acc)
     (auto simp: retained_def map_add_upd_left split: option.splits)

lemma getDate_idem: "getDate (getDate t) = getDate t"
  by (simp add: getDate_def nsPerDay_def)

lemma map_of_rev_last:
  assumes "k \<notin> fst ` set ys"
  shows "map_of (rev (xs @ (k, v) # ys)) k = Some v"
proof -
  have "map_of (rev ys) k = None" using assms by (simp add: map_of_eq_None_iff)
  then show ?thesis by (simp add: map_add_def)
qed

text \<open>
  Claim C8. For a series built in session-close mode: every stored price is the close of
  an input record whose time of day is 21:00, whose calendar date is the key and which
  is not before the start date when one is given; two keys of the series with the same
  calendar date are the same key; and a retained record after which no retained record
  of the same calendar date follows in the input determines the price stored for its
  date.
\<close>

theorem loadDailyRecords_session_close:
  "(loadDailyRecords readRecords symbol startDate True barchart d = Some c \<longrightarrow>
      (\<exists>r \<in> set (readRecords barchart symbol).
          getTimeOfDay (Timestamp r) = sessionEnd \<and> getDate (Timestamp r) = d \<and> Close r = c
          \<and> (case startDate of None \<Rightarrow> True | Some s \<Rightarrow> \<not> Timestamp r < s)))
   \<and> (d \<in> dom (loadDailyRecords readRecords symbol startDate True barchart)
        \<and> d' \<in> dom (loadDailyRecords readRecords symbol startDate True barchart)
        \<and> getDate d = getDate d' \<longrightarrow> d = d')
   \<and> (readRecords barchart symbol = earlier @ r # later
        \<and> retained startDate r
        \<and> (\<forall>r' \<in> set later. retained startDate r'
               \<longrightarrow> getDate (Timestamp r') \<noteq> getDate (Timestamp r))
        \<longrightarrow> loadDailyRecords readRecords symbol startDate True barchart (getDate (Timestamp r))
              = Some (Close r))"
proof (intro conjI impI)
  let ?kv = "\<lambda>r. (getDate (Timestamp r), Close r)"
  let ?rs = "readRecords barchart symbol"
  let ?out = "loadDailyRecords readRecords symbol startDate True barchart"
  have out: "?out = map_of (rev (map ?kv (filter (retained startDate) ?rs)))"
    by (simp add: loadDailyRecords_def loadDailyRecordsLoop_collapse)
  have src: "\<exists>r \<in> set ?rs. retained startDate r \<and> getDate (Timestamp r) = k \<and> Close r = v"
    if "?out k = Some v" for k v
  proof -
    from that out have "map_of (rev (map ?kv (filter (retained startDate) ?rs))) k = Some v"
      by simp
    then have "(k, v) \<in> set (rev (map ?kv (filter (retained startDate) ?rs)))"
      by (rule map_of_SomeD)
    then show ?thesis by auto
  qed
  {
    assume "?out d = Some c"
    from src [OF this] show "\<exists>r \<in> set ?rs.
          getTimeOfDay (Timestamp r) = sessionEnd \<and> getDate (Timestamp r) = d \<and> Close r = c
          \<and> (case startDate of None \<Rightarrow> True | Some s \<Rightarrow> \<not> Timestamp r < s)"
      by (auto simp: retained_def split: option.splits)
  }
  {
    assume a: "d \<in> dom ?out \<and> d' \<in> dom ?out \<and> getDate d = getDate d'"
    have "getDate k = k" if "k \<in> dom ?out" for k
    proof -
      from that obtain v where "?out k = Some v" by auto
      from src [OF this] show ?thesis by (auto simp: getDate_idem)
    qed
    with a show "d = d'" by metis
  }
  {
    assume a: "?rs = earlier @ r # later \<and> retained startDate r
        \<and> (\<forall>r' \<in> set later. retained startDate r'
               \<longrightarrow> getDate (Timestamp r') \<noteq> getDate (Timestamp r))"
    then have f: "map ?kv (filter (retained startDate) ?rs)
        = map ?kv (filter (retained startDate) earlier) @ ?kv r
            # map ?kv (filter (retained startDate) later)"
      by simp
    have "getDate (Timestamp r) \<notin> fst ` set (map ?kv (filter (retained startDate) later))"
      using a by auto
    from map_of_rev_last [OF this] f out
    show "?out (getDate (Timestamp r)) = Some (Close r)" by simp
  }
qed

theorem loadDailyRecords_session_close_witness:
  "retained (Some 0) \<lparr>Timestamp = 75600000000000, Close = Finite 3\<rparr>
   \<and> \<not> retained (Some 0) \<lparr>Timestamp = - 10800000000000, Close = Finite 9\<rparr>
   \<and> loadDailyRecords
        (\<lambda>barchart symbol.
           [\<lparr>Timestamp = 75600000000000, Close = Finite 1\<rparr>,
            \<lparr>Timestamp = 72000000000000, Close = Finite 2\<rparr>,
            \<lparr>Timestamp = 75600000000000, Close = Finite 3\<rparr>,
            \<lparr>Timestamp = - 10800000000000, Close = Finite 9\<rparr>])
        ''ETHUSDT'' (Some 0) True False 0 = Some (Finite 3)"
  using loadDailyRecords_session_close
    [of "\<lambda>barchart symbol.
           [\<lparr>Timestamp = 75600000000000, Close = Finite 1\<rparr>,
            \<lparr>Timestamp = 72000000000000, Close = Finite 2\<rparr>,
            \<lparr>Timestamp = 75600000000000, Close = Finite 3\<rparr>,
            \<lparr>Timestamp = - 10800000000000, Close = Finite 9\<rparr>]"
        "''ETHUSDT''" "Some 0" False 0 "Finite 3" 0
        "[\<lparr>Timestamp = 75600000000000, Close = Finite 1\<rparr>,
          \<lparr>Timestamp = 72000000000000, Close = Finite 2\<rparr>]"
        "\<lparr>Timestamp = 75600000000000, Close = Finite 3\<rparr>"
        "[\<lparr>Timestamp = - 10800000000000, Close = Finite 9\<rparr>]"]
  by (simp add: retained_def getTimeOfDay_def getDate_def sessionEnd_def nsPerDay_def)

section \<open>Properties of the backtest\<close>

lemma flt_asym: "flt a b \<Longrightarrow> \<not> flt b a"
  by (cases a; cases b) auto

lemma runBacktestLoop_closed:
  assumes "length labels = i + length features"
    and "map predict features = map Some preds"
  shows "runBacktestLoop cfg predict labels i features (longs, shorts)
     = Inr (longs @ map (\<lambda>(p, l). if fgt p (LongThreshold cfg) then l else Finite 0)
                        (zip preds (drop i labels)),
            shorts @ map (\<lambda>(p, l). if flt p (ShortThreshold cfg)
                                     then fsub (fdiv (Finite 1) (fadd (Finite 1) l)) (Finite 1)
                                     else Finite 0)
                        (zip preds (drop i labels)))"
  using assms
proof (induction features arbitrary: i preds longs shorts)
  case Nil
  then show ?case by simp
next
  case (Cons f features)
  from Cons.prems(2) obtain p preds' where preds: "preds = p # preds'"
    and p: "predict f = Some p" and rest: "map predict features = map Some preds'"
    by (cases preds) auto
  have i: "i < length labels" using Cons.prems(1) by simp
  then have dr: "drop i labels = labels ! i # drop (Suc i) labels"
    by (simp add: Cons_nth_drop_Suc)
  have len: "length labels = Suc i + length features" using Cons.prems(1) by simp
  show ?case
    using i p by (simp add: Cons.IH [OF len rest] preds dr Let_def)
qed


text \<open>
  Claim C2. On a test partition with one label per feature vector and a model that
  predicts every vector, \<open>runBacktest\<close> returns two streams with one entry per example,
  in the order of the partition. Entry \<open>i\<close> of the long stream is the label when the
  prediction is strictly above the long threshold and 0 otherwise; entry \<open>i\<close> of the short
  stream is \<open>1/(1 + label) - 1\<close> when the prediction is strictly below the short threshold
  and 0 otherwise; a prediction strictly between the thresholds gives 0 in both.
\<close>

theorem runBacktest_streams:
  assumes "length labels = length features"
    and "map (Predict model) features = map Some predictions"
  shows "\<exists>longReturns shortReturns.
     runBacktest cfg features labels model = Inr (longReturns, shortReturns)
     \<and> length longReturns = length features
     \<and> length shortReturns = length features
     \<and> (\<forall>i < length features.
           longReturns ! i
             = (if fgt (predictions ! i) (LongThreshold cfg) then labels ! i else Finite 0)
           \<and> shortReturns ! i
             = (if flt (predictions ! i) (ShortThreshold cfg)
                then fsub (fdiv (Finite 1) (fadd (Finite 1) (labels ! i))) (Finite 1)
                else Finite 0)
           \<and> (flt (ShortThreshold cfg) (predictions ! i)
                \<and> flt (predictions ! i) (LongThreshold cfg)
               \<longrightarrow> longReturns ! i = Finite 0 \<and> shortReturns ! i = Finite 0))"
proof -
  have n: "length predictions = length features"
    using assms(2) by (metis length_map)
  have len: "length labels = 0 + length features" using assms(1) by simp
  show ?thesis
    unfolding runBacktest_def runBacktestLoop_closed [OF len assms(2)]
    using n assms(1) by (auto simp: fgt_def dest: flt_asym)
qed


theorem runBacktest_streams_witness:
  "runBacktest sampleConfiguration
     [[Finite (5 / 1000)], [Finite (2 / 100)], [Finite (- 2 / 100)]]
     [Finite (1 / 10), Finite (1 / 10), Finite (1 / 10)] sampleModel
   = Inr ([Finite 0, Finite (1 / 10), Finite 0], [Finite 0, Finite 0, Finite (- 1 / 11)])"
  using runBacktest_streams
    [of "[Finite (1 / 10), Finite (1 / 10), Finite (1 / 10)]"
        "[[Finite (5 / 1000)], [Finite (2 / 100)], [Finite (- 2 / 100)]]"
        sampleModel
        "[Finite (5 / 1000), Finite (2 / 100), Finite (- 2 / 100)]"
        sampleConfiguration]
  by (simp add: runBacktest_def sampleModel_def sampleConfiguration_def fgt_def fsub_def)

section \<open>Properties of the Sharpe ratio\<close>

lemma fdiv_zero_cases: "fdiv x (Finite 0) = NaN \<or> fdiv x (Finite 0) = PosInf \<or> fdiv x (Finite 0) = NegInf"
  by (cases x) (auto simp: infOfSign_def)

lemma fmul_sqrt_inf:
  "fmul (fsqrt weeksPerYear) PosInf = PosInf" "fmul (fsqrt weeksPerYear) NegInf = NegInf"
  "fmul (fsqrt weeksPerYear) NaN = NaN"
  by (simp_all add: weeksPerYear_def infOfSign_def)

text \<open>
  Claim C3. With fewer than two returns the Sharpe ratio is NaN. With two or more it is
  the value of \<open>sqrt(52) * ((mean - riskFreeRate/52) / stdDev)\<close> in floating-point
  arithmetic, replaced by NaN when that value is an infinity; for finite mean, rate and
  non-zero finite standard deviation this is the number
  \<open>sqrt 52 * (mean - riskFreeRate/52) / stdDev\<close>; with a standard deviation of zero the
  result is NaN; the result is never an infinity.
\<close>

theorem getSharpeRatio_formula_and_guard:
  "(length weeklyReturns < 2 \<longrightarrow> getSharpeRatio cfg lib weeklyReturns = NaN)
   \<and> (2 \<le> length weeklyReturns \<longrightarrow>
        getSharpeRatio cfg lib weeklyReturns
          = (let sharpeRatio =
                   fmul (fsqrt (Finite 52))
                     (fdiv (fsub (Mean lib weeklyReturns) (fdiv (RiskFreeRate cfg) (Finite 52)))
                           (StdDev lib weeklyReturns))
             in if sharpeRatio = PosInf \<or> sharpeRatio = NegInf then NaN else sharpeRatio))
   \<and> (2 \<le> length weeklyReturns \<and> Mean lib weeklyReturns = Finite m
        \<and> StdDev lib weeklyReturns = Finite sd \<and> sd \<noteq> 0 \<and> RiskFreeRate cfg = Finite rf \<longrightarrow>
        getSharpeRatio cfg lib weeklyReturns = Finite (sqrt 52 * (m - rf / 52) / sd))
   \<and> (2 \<le> length weeklyReturns \<and> StdDev lib weeklyReturns = Finite 0 \<longrightarrow>
        getSharpeRatio cfg lib weeklyReturns = NaN)
   \<and> getSharpeRatio cfg lib weeklyReturns \<noteq> PosInf
   \<and> getSharpeRatio cfg lib weeklyReturns \<noteq> NegInf"
proof (intro conjI impI)
  show "length weeklyReturns < 2 \<Longrightarrow> getSharpeRatio cfg lib weeklyReturns = NaN"
    by (simp add: getSharpeRatio_def)
  show "2 \<le> length weeklyReturns \<Longrightarrow>
        getSharpeRatio cfg lib weeklyReturns
          = (let sharpeRatio =
                   fmul (fsqrt (Finite 52))
                     (fdiv (fsub (Mean lib weeklyReturns) (fdiv (RiskFreeRate cfg) (Finite 52)))
                           (StdDev lib weeklyReturns))
             in if sharpeRatio = PosInf \<or> sharpeRatio = NegInf then NaN else sharpeRatio)"
    by (simp add: getSharpeRatio_def weeksPerYear_def isInf_def Let_def del: fsqrt.simps)
  show "getSharpeRatio cfg lib weeklyReturns = Finite (sqrt 52 * (m - rf / 52) / sd)"
    if "2 \<le> length weeklyReturns \<and> Mean lib weeklyReturns = Finite m
        \<and> StdDev lib weeklyReturns = Finite sd \<and> sd \<noteq> 0 \<and> RiskFreeRate cfg = Finite rf"
    using that by (simp add: getSharpeRatio_def weeksPerYear_def isInf_def fsub_def)
  show "getSharpeRatio cfg lib weeklyReturns = NaN"
    if a: "2 \<le> length weeklyReturns \<and> StdDev lib weeklyReturns = Finite 0"
  proof -
    let ?w = "fdiv (fsub (Mean lib weeklyReturns) (fdiv (RiskFreeRate cfg) weeksPerYear)) (Finite 0)"
    from fdiv_zero_cases [of "fsub (Mean lib weeklyReturns) (fdiv (RiskFreeRate cfg) weeksPerYear)"]
    have "fmul (fsqrt weeksPerYear) ?w = NaN \<or> fmul (fsqrt weeksPerYear) ?w = PosInf
          \<or> fmul (fsqrt weeksPerYear) ?w = NegInf"
      using fmul_sqrt_inf by auto
    then show ?thesis using a
      by (auto simp: getSharpeRatio_def isInf_def Let_def)
  qed
  show "getSharpeRatio cfg lib weeklyReturns \<noteq> PosInf"
    by (auto simp: getSharpeRatio_def isInf_def Let_def)
  show "getSharpeRatio cfg lib weeklyReturns \<noteq> NegInf"
    by (auto simp: getSharpeRatio_def isInf_def Let_def)
qed


lemma sqrt_example: "sqrt (1 / 10000) = 1 / 100"
  by (rule real_sqrt_unique) (simp_all add: power2_eq_square)

lemma sampleMean_example:
  "sampleMean [Finite (1 / 100), Finite (3 / 100)] = Finite (2 / 100)"
  by (simp add: sampleMean_def)

lemma sampleStdDev_example:
  "sampleStdDev [Finite (1 / 100), Finite (3 / 100)] = Finite (1 / 100)"
  by (simp add: sampleStdDev_def sampleMean_def fsub_def Let_def sqrt_example)

lemma sampleStdDev_constant:
  "sampleStdDev [Finite (1 / 100), Finite (1 / 100)] = Finite 0"
  by (simp add: sampleStdDev_def sampleMean_def fsub_def Let_def)

theorem getSharpeRatio_formula_and_guard_witness:
  "getSharpeRatio sampleConfiguration sampleLibrary [Finite (1 / 100)] = NaN
   \<and> getSharpeRatio sampleConfiguration sampleLibrary [Finite (1 / 100), Finite (3 / 100)]
       = Finite (sqrt 52 * (2 / 100 - (4 / 100) / 52) / (1 / 100))
   \<and> getSharpeRatio sampleConfiguration sampleLibrary [Finite (1 / 100), Finite (1 / 100)] = NaN"
proof -
  have m: "Mean sampleLibrary [Finite (1 / 100), Finite (3 / 100)] = Finite (2 / 100)"
    using sampleMean_example by (simp add: sampleLibrary_def)
  have sd: "StdDev sampleLibrary [Finite (1 / 100), Finite (3 / 100)] = Finite (1 / 100)"
    using sampleStdDev_example by (simp add: sampleLibrary_def)
  have sd0: "StdDev sampleLibrary [Finite (1 / 100), Finite (1 / 100)] = Finite 0"
    using sampleStdDev_constant by (simp add: sampleLibrary_def)
  have rf: "RiskFreeRate sampleConfiguration = Finite (4 / 100)"
    by (simp add: sampleConfiguration_def)
  have len2: "2 \<le> length [Finite (1 / 100), Finite (1 / 100)]" by simp
  have short: "getSharpeRatio sampleConfiguration sampleLibrary [Finite (1 / 100)] = NaN"
    using getSharpeRatio_formula_and_guard
            [of "[Finite (1 / 100)]" sampleConfiguration sampleLibrary]
    by simp
  have finite: "getSharpeRatio sampleConfiguration sampleLibrary
                  [Finite (1 / 100), Finite (3 / 100)]
                = Finite (sqrt 52 * (2 / 100 - (4 / 100) / 52) / (1 / 100))"
    using getSharpeRatio_formula_and_guard
            [of "[Finite (1 / 100), Finite (3 / 100)]" sampleConfiguration sampleLibrary
                "2 / 100" "1 / 100" "4 / 100"]
          m sd rf
    by (simp add: fsub_def Let_def)
  have flat: "getSharpeRatio sampleConfiguration sampleLibrary
                [Finite (1 / 100), Finite (1 / 100)] = NaN"
    using getSharpeRatio_formula_and_guard
            [of "[Finite (1 / 100), Finite (1 / 100)]" sampleConfiguration sampleLibrary]
          sd0 len2
    by blast
  from short finite flat show ?thesis by blast
qed

section \<open>Properties of the score\<close>

lemma getR2ScoreLoop_closed:
  assumes "length labels = i + length features"
    and "map predict features = map Some preds"
  shows "getR2ScoreLoop predict labels meanObserved i features (residualSum, totalSum)
     = Inr (foldl fadd residualSum
              (map (\<lambda>(l, p). fmul (fsub l p) (fsub l p)) (zip (drop i labels) preds)),
            foldl fadd totalSum
              (map (\<lambda>l. fmul (fsub l meanObserved) (fsub l meanObserved)) (drop i labels)))"
  using assms
proof (induction features arbitrary: i preds residualSum totalSum)
  case Nil
  then show ?case by simp
next
  case (Cons f features)
  from Cons.prems(2) obtain p preds' where preds: "preds = p # preds'"
    and p: "predict f = Some p" and rest: "map predict features = map Some preds'"
    by (cases preds) auto
  have i: "i < length labels" using Cons.prems(1) by simp
  then have dr: "drop i labels = labels ! i # drop (Suc i) labels"
    by (simp add: Cons_nth_drop_Suc)
  have len: "length labels = Suc i + length features" using Cons.prems(1) by simp
  show ?case
    using i p by (simp add: Cons.IH [OF len rest] preds dr Let_def)
qed

lemma foldl_fadd_Finite:
  "foldl fadd (Finite a) (map (\<lambda>x. Finite (g x)) xs) = Finite (a + sum_list (map g xs))"
  by (induction xs arbitrary: a) (simp_all add: add.assoc)

lemma sum_list_squares_pos:
  fixes xs :: "real list"
  assumes "\<exists>x \<in> set xs. x \<noteq> mu"
  shows "0 < sum_list (map (\<lambda>x. (x - mu) * (x - mu)) xs)"
  using assms
proof (induction xs)
  case Nil
  then show ?case by simp
next
  case (Cons x xs)
  have nonneg: "0 \<le> sum_list (map (\<lambda>x. (x - mu) * (x - mu)) xs)"
    by (rule sum_list_nonneg) auto
  show ?case
  proof (cases "x = mu")
    case True
    with Cons show ?thesis by auto
  next
    case False
    then have "0 < (x - mu) * (x - mu)" by (auto simp: zero_less_mult_iff)
    with nonneg show ?thesis by simp
  qed
qed

lemma totalSum_Finite:
  "foldl fadd (Finite 0) (map (\<lambda>l. fmul (fsub l (Finite mu)) (fsub l (Finite mu))) (map Finite xs))
     = Finite (sum_list (map (\<lambda>x. (x - mu) * (x - mu)) xs))"
proof -
  have "map (\<lambda>l. fmul (fsub l (Finite mu)) (fsub l (Finite mu))) (map Finite xs)
          = map (\<lambda>x. Finite ((x - mu) * (x - mu))) xs"
    by (simp add: fsub_def)
  then show ?thesis using foldl_fadd_Finite [of 0 "\<lambda>x. (x - mu) * (x - mu)" xs]
    by (simp only: add_0)
qed

lemma residualSum_exact:
  "foldl fadd (Finite 0)
     (map (\<lambda>(l, p). fmul (fsub l p) (fsub l p)) (zip (map Finite xs) (map Finite xs)))
     = Finite 0"
proof -
  have "map (\<lambda>(l, p). fmul (fsub l p) (fsub l p)) (zip (map Finite xs) (map Finite xs))
          = map (\<lambda>x. Finite ((\<lambda>x. 0) x)) xs"
    by (induction xs) (simp_all add: fsub_def)
  then show ?thesis using foldl_fadd_Finite [of 0 "\<lambda>x. 0" xs] by simp
qed

lemma residualSum_mean:
  assumes "length predictions = length xs" and "\<forall>p \<in> set predictions. p = Finite mu"
  shows "map (\<lambda>(l, p). fmul (fsub l p) (fsub l p)) (zip (map Finite xs) predictions)
          = map (\<lambda>l. fmul (fsub l (Finite mu)) (fsub l (Finite mu))) (map Finite xs)"
  using assms
proof (induction xs arbitrary: predictions)
  case Nil
  then show ?case by simp
next
  case (Cons x xs)
  then obtain p ps where "predictions = p # ps" by (cases predictions) auto
  with Cons show ?case by auto
qed


text \<open>
  Claim C5. On a partition with one label per feature vector and a model that predicts
  every vector, the score is \<open>1 - residualSum / totalSum\<close>, where \<open>residualSum\<close> adds the
  squares of label minus prediction and \<open>totalSum\<close> the squares of label minus the mean of
  the labels of this partition. When the labels and their mean are finite and some label
  differs from the mean, the score is 1 if every prediction equals its label, and 0 if
  every prediction equals the mean of the labels.
\<close>

theorem getR2Score_formula:
  assumes "length labels = length features"
    and "map (Predict model) features = map Some predictions"
  shows "getR2Score lib features labels model
           = Inr (fsub (Finite 1)
                    (fdiv (foldl fadd (Finite 0)
                             (map (\<lambda>(l, p). fmul (fsub l p) (fsub l p)) (zip labels predictions)))
                          (foldl fadd (Finite 0)
                             (map (\<lambda>l. fmul (fsub l (Mean lib labels)) (fsub l (Mean lib labels)))
                                  labels))))
     \<and> (labels = map Finite xs \<and> Mean lib labels = Finite mu \<and> (\<exists>x \<in> set xs. x \<noteq> mu)
          \<and> predictions = labels
        \<longrightarrow> getR2Score lib features labels model = Inr (Finite 1))
     \<and> (labels = map Finite xs \<and> Mean lib labels = Finite mu \<and> (\<exists>x \<in> set xs. x \<noteq> mu)
          \<and> (\<forall>p \<in> set predictions. p = Mean lib labels)
        \<longrightarrow> getR2Score lib features labels model = Inr (Finite 0))"
proof (intro conjI impI)
  have len: "length labels = 0 + length features" using assms(1) by simp
  have n: "length predictions = length features"
    using assms(2) by (metis length_map)
  show formula: "getR2Score lib features labels model
           = Inr (fsub (Finite 1)
                    (fdiv (foldl fadd (Finite 0)
                             (map (\<lambda>(l, p). fmul (fsub l p) (fsub l p)) (zip labels predictions)))
                          (foldl fadd (Finite 0)
                             (map (\<lambda>l. fmul (fsub l (Mean lib labels)) (fsub l (Mean lib labels)))
                                  labels))))"
    by (simp add: getR2Score_def getR2ScoreLoop_closed [OF len assms(2)] Let_def)
  {
    assume a: "labels = map Finite xs \<and> Mean lib labels = Finite mu \<and> (\<exists>x \<in> set xs. x \<noteq> mu)
          \<and> predictions = labels"
    then have l: "labels = map Finite xs" and mu: "Mean lib labels = Finite mu"
      and p: "predictions = map Finite xs" by auto
    from a have pos: "0 < sum_list (map (\<lambda>x. (x - mu) * (x - mu)) xs)"
      using sum_list_squares_pos by blast
    have rs: "foldl fadd (Finite 0)
                (map (\<lambda>(l, p). fmul (fsub l p) (fsub l p)) (zip labels predictions)) = Finite 0"
      unfolding l p by (rule residualSum_exact)
    have ts: "foldl fadd (Finite 0)
                (map (\<lambda>l. fmul (fsub l (Mean lib labels)) (fsub l (Mean lib labels))) labels)
              = Finite (sum_list (map (\<lambda>x. (x - mu) * (x - mu)) xs))"
      unfolding mu unfolding l by (rule totalSum_Finite)
    show "getR2Score lib features labels model = Inr (Finite 1)"
      unfolding formula rs ts using pos by (simp add: fsub_def)
  }
  {
    assume a: "labels = map Finite xs \<and> Mean lib labels = Finite mu \<and> (\<exists>x \<in> set xs. x \<noteq> mu)
          \<and> (\<forall>p \<in> set predictions. p = Mean lib labels)"
    then have l: "labels = map Finite xs" and mu: "Mean lib labels = Finite mu"
      and allp: "\<forall>p \<in> set predictions. p = Finite mu" by auto
    from a have pos: "0 < sum_list (map (\<lambda>x. (x - mu) * (x - mu)) xs)"
      using sum_list_squares_pos by blast
    have np: "length predictions = length xs" using n assms(1) l by simp
    have ts: "foldl fadd (Finite 0)
                (map (\<lambda>l. fmul (fsub l (Mean lib labels)) (fsub l (Mean lib labels))) labels)
              = Finite (sum_list (map (\<lambda>x. (x - mu) * (x - mu)) xs))"
      unfolding mu unfolding l by (rule totalSum_Finite)
    have rs: "foldl fadd (Finite 0)
                (map (\<lambda>(l, p). fmul (fsub l p) (fsub l p)) (zip labels predictions))
              = Finite (sum_list (map (\<lambda>x. (x - mu) * (x - mu)) xs))"
      unfolding l residualSum_mean [OF np allp] by (rule totalSum_Finite)
    show "getR2Score lib features labels model = Inr (Finite 0)"
      unfolding formula rs ts using pos by (simp add: fsub_def)
  }
qed

theorem getR2Score_formula_witness:
  "getR2Score sampleLibrary [[Finite (1 / 10)], [Finite (3 / 10)]]
     [Finite (1 / 10), Finite (3 / 10)] sampleModel = Inr (Finite 1)
   \<and> getR2Score sampleLibrary [[Finite (2 / 10)], [Finite (2 / 10)]]
       [Finite (1 / 10), Finite (3 / 10)] sampleModel = Inr (Finite 0)"
proof -
  have m: "Mean sampleLibrary [Finite (1 / 10), Finite (3 / 10)] = Finite (2 / 10)"
    by (simp add: sampleLibrary_def sampleMean_def)
  have one: "getR2Score sampleLibrary [[Finite (1 / 10)], [Finite (3 / 10)]]
     [Finite (1 / 10), Finite (3 / 10)] sampleModel = Inr (Finite 1)"
    using getR2Score_formula
            [of "[Finite (1 / 10), Finite (3 / 10)]" "[[Finite (1 / 10)], [Finite (3 / 10)]]"
                sampleModel "[Finite (1 / 10), Finite (3 / 10)]" sampleLibrary
                "[1 / 10, 3 / 10]" "2 / 10"] m
    by (simp add: sampleModel_def fsub_def)
  have zero: "getR2Score sampleLibrary [[Finite (2 / 10)], [Finite (2 / 10)]]
       [Finite (1 / 10), Finite (3 / 10)] sampleModel = Inr (Finite 0)"
    using getR2Score_formula
            [of "[Finite (1 / 10), Finite (3 / 10)]" "[[Finite (2 / 10)], [Finite (2 / 10)]]"
                sampleModel "[Finite (2 / 10), Finite (2 / 10)]" sampleLibrary
                "[1 / 10, 3 / 10]" "2 / 10"] m
    by (simp add: sampleModel_def fsub_def)
  from one zero show ?thesis by blast
qed

section \<open>Properties of feature and label construction\<close>

lemma regressionLoop_foldl:
  "regressionLoop cfg symbol assetMap referenceMap indexMap date ps
     = foldl (\<lambda>ps d. appendExample cfg d
                         (dailyExample cfg symbol assetMap referenceMap indexMap d) ps)
             ps (loopDates date (EndDate cfg))"
proof (induction cfg symbol assetMap referenceMap indexMap date ps rule: regressionLoop.induct)
  case (1 cfg symbol assetMap referenceMap indexMap date ps)
  show ?case
  proof (cases "date < EndDate cfg")
    case True
    have l: "loopDates date (EndDate cfg) = date # loopDates (addDays date 1) (EndDate cfg)"
      using True by (subst loopDates.simps) (simp only: if_True)
    have r: "regressionLoop cfg symbol assetMap referenceMap indexMap date ps
        = regressionLoop cfg symbol assetMap referenceMap indexMap (addDays date 1)
             (appendExample cfg date
                (dailyExample cfg symbol assetMap referenceMap indexMap date) ps)"
      using True by (subst regressionLoop.simps) (simp only: if_True)
    show ?thesis
      unfolding l r "1.IH" [OF True] by (simp only: foldl_Cons)
  next
    case False
    have l: "loopDates date (EndDate cfg) = []"
      using False by (subst loopDates.simps) (simp only: if_False)
    have r: "regressionLoop cfg symbol assetMap referenceMap indexMap date ps = ps"
      using False by (subst regressionLoop.simps) (simp only: if_False)
    show ?thesis unfolding l r by (simp only: foldl_Nil)
  qed
qed


lemma loopDates_bounds:
  "d \<in> set (loopDates date endDate) \<Longrightarrow> date \<le> d \<and> d < endDate"
proof (induction date endDate rule: loopDates.induct)
  case (1 date endDate)
  show ?case
  proof (cases "date < endDate")
    case True
    have l: "loopDates date endDate = date # loopDates (addDays date 1) endDate"
      using True by (subst loopDates.simps) (simp only: if_True)
    from "1.prems" have "d = date \<or> d \<in> set (loopDates (addDays date 1) endDate)"
      unfolding l by simp
    then show ?thesis
    proof
      assume "d = date"
      with True show ?thesis by simp
    next
      assume "d \<in> set (loopDates (addDays date 1) endDate)"
      from "1.IH" [OF True this] show ?thesis
        by (simp add: addDays_def nsPerDay_def)
    qed
  next
    case False
    have l: "loopDates date endDate = []"
      using False by (subst loopDates.simps) (simp only: if_False)
    from "1.prems" show ?thesis unfolding l by simp
  qed
qed

lemma loopDates_distinct: "distinct (loopDates date endDate)"
proof (induction date endDate rule: loopDates.induct)
  case (1 date endDate)
  show ?case
  proof (cases "date < endDate")
    case True
    have l: "loopDates date endDate = date # loopDates (addDays date 1) endDate"
      using True by (subst loopDates.simps) (simp only: if_True)
    have "date \<notin> set (loopDates (addDays date 1) endDate)"
    proof
      assume "date \<in> set (loopDates (addDays date 1) endDate)"
      from loopDates_bounds [OF this] show False by (simp add: addDays_def nsPerDay_def)
    qed
    with "1.IH" [OF True] show ?thesis unfolding l by simp
  next
    case False
    have l: "loopDates date endDate = []"
      using False by (subst loopDates.simps) (simp only: if_False)
    show ?thesis unfolding l by simp
  qed
qed

lemma appendExample_fields:
  "trainingFeatures (appendExample cfg d ex ps)
     = trainingFeatures ps @ (if d < SplitDate cfg then map fst (List.map_filter (\<lambda>_. ex) [d]) else [])"
  "trainingLabels (appendExample cfg d ex ps)
     = trainingLabels ps @ (if d < SplitDate cfg then map snd (List.map_filter (\<lambda>_. ex) [d]) else [])"
  "testFeatures (appendExample cfg d ex ps)
     = testFeatures ps @ (if d < SplitDate cfg then [] else map fst (List.map_filter (\<lambda>_. ex) [d]))"
  "testLabels (appendExample cfg d ex ps)
     = testLabels ps @ (if d < SplitDate cfg then [] else map snd (List.map_filter (\<lambda>_. ex) [d]))"
  by (auto simp: appendExample_def List.map_filter_simps split: option.splits)

lemma foldl_appendExample_trainingFeatures:
  "trainingFeatures (foldl (\<lambda>ps d. appendExample cfg d (example d) ps) ps ds)
     = trainingFeatures ps
       @ map fst (List.map_filter example (filter (\<lambda>d. d < SplitDate cfg) ds))"
  by (induction ds arbitrary: ps)
     (auto simp: appendExample_fields List.map_filter_simps split: option.splits)

lemma foldl_appendExample_trainingLabels:
  "trainingLabels (foldl (\<lambda>ps d. appendExample cfg d (example d) ps) ps ds)
     = trainingLabels ps
       @ map snd (List.map_filter example (filter (\<lambda>d. d < SplitDate cfg) ds))"
  by (induction ds arbitrary: ps)
     (auto simp: appendExample_fields List.map_filter_simps split: option.splits)

lemma foldl_appendExample_testFeatures:
  "testFeatures (foldl (\<lambda>ps d. appendExample cfg d (example d) ps) ps ds)
     = testFeatures ps
       @ map fst (List.map_filter example (filter (\<lambda>d. \<not> d < SplitDate cfg) ds))"
  by (induction ds arbitrary: ps)
     (auto simp: appendExample_fields List.map_filter_simps split: option.splits)

lemma foldl_appendExample_testLabels:
  "testLabels (foldl (\<lambda>ps d. appendExample cfg d (example d) ps) ps ds)
     = testLabels ps
       @ map snd (List.map_filter example (filter (\<lambda>d. \<not> d < SplitDate cfg) ds))"
  by (induction ds arbitrary: ps)
     (auto simp: appendExample_fields List.map_filter_simps split: option.splits)


lemma map_filter_split_length:
  "length (List.map_filter f (filter P xs)) + length (List.map_filter f (filter (\<lambda>x. \<not> P x) xs))
     = length (List.map_filter f xs)"
  by (induction xs) (auto simp: List.map_filter_simps split: option.splits)

lemma filter_test_dates:
  "filter (\<lambda>d. SplitDate cfg \<le> d \<and> d < EndDate cfg) (loopDates (StartDate cfg) (EndDate cfg))
     = filter (\<lambda>d. \<not> d < SplitDate cfg) (loopDates (StartDate cfg) (EndDate cfg))"
  by (rule filter_cong) (auto dest: loopDates_bounds)

text \<open>
  Claim C4. The date loop visits distinct dates, all in \<open>[StartDate, EndDate)\<close>. The
  training partition consists of the examples of the visited dates strictly before the
  split date, in order, and the test partition of the examples of the visited dates on
  or after the split date and strictly before the end date, in order; features and
  labels are paired, and the two partitions together hold exactly one example for each
  visited date that is not skipped.
\<close>

theorem buildPartitions_routing:
  fixes cfg symbol assetMap referenceMap indexMap
  defines "ps \<equiv> buildPartitions cfg symbol assetMap referenceMap indexMap"
    and "example \<equiv> dailyExample cfg symbol assetMap referenceMap indexMap"
    and "dates \<equiv> loopDates (StartDate cfg) (EndDate cfg)"
  shows "zip (trainingFeatures ps) (trainingLabels ps)
           = List.map_filter example (filter (\<lambda>d. d < SplitDate cfg) dates)
     \<and> zip (testFeatures ps) (testLabels ps)
           = List.map_filter example (filter (\<lambda>d. SplitDate cfg \<le> d \<and> d < EndDate cfg) dates)
     \<and> length (trainingFeatures ps) = length (trainingLabels ps)
     \<and> length (testFeatures ps) = length (testLabels ps)
     \<and> length (trainingFeatures ps) + length (testFeatures ps)
           = length (List.map_filter example dates)
     \<and> (\<forall>d \<in> set dates. StartDate cfg \<le> d \<and> d < EndDate cfg)
     \<and> distinct dates"
proof -
  let ?tr = "List.map_filter example (filter (\<lambda>d. d < SplitDate cfg) dates)"
  let ?te = "List.map_filter example (filter (\<lambda>d. \<not> d < SplitDate cfg) dates)"
  have run: "ps = foldl (\<lambda>ps d. appendExample cfg d (example d) ps) emptyPartitions dates"
    unfolding ps_def example_def dates_def buildPartitions_def by (rule regressionLoop_foldl)
  have trF: "trainingFeatures ps = map fst ?tr"
    unfolding run foldl_appendExample_trainingFeatures by (simp add: emptyPartitions_def)
  have trL: "trainingLabels ps = map snd ?tr"
    unfolding run foldl_appendExample_trainingLabels by (simp add: emptyPartitions_def)
  have teF: "testFeatures ps = map fst ?te"
    unfolding run foldl_appendExample_testFeatures by (simp add: emptyPartitions_def)
  have teL: "testLabels ps = map snd ?te"
    unfolding run foldl_appendExample_testLabels by (simp add: emptyPartitions_def)
  have te: "List.map_filter example (filter (\<lambda>d. SplitDate cfg \<le> d \<and> d < EndDate cfg) dates) = ?te"
    unfolding dates_def by (simp only: filter_test_dates)
  have c1: "zip (trainingFeatures ps) (trainingLabels ps) = ?tr"
    unfolding trF trL by (rule zip_map_fst_snd)
  have c2: "zip (testFeatures ps) (testLabels ps)
           = List.map_filter example (filter (\<lambda>d. SplitDate cfg \<le> d \<and> d < EndDate cfg) dates)"
    unfolding te teF teL by (rule zip_map_fst_snd)
  have c3: "length (trainingFeatures ps) = length (trainingLabels ps)"
    unfolding trF trL by simp
  have c4: "length (testFeatures ps) = length (testLabels ps)"
    unfolding teF teL by simp
  have c5: "length (trainingFeatures ps) + length (testFeatures ps)
           = length (List.map_filter example dates)"
    unfolding trF teF length_map by (rule map_filter_split_length)
  have c6: "\<forall>d \<in> set dates. StartDate cfg \<le> d \<and> d < EndDate cfg"
    unfolding dates_def using loopDates_bounds by blast
  have c7: "distinct dates" unfolding dates_def by (rule loopDates_distinct)
  from c1 c2 c3 c4 c5 c6 c7 show ?thesis by blast
qed

section \<open>The sample inputs evaluated\<close>

lemma sampleAssetMap_eq:
  "sampleAssetMap
     = [addDays 0 (- 1) \<mapsto> Finite 100, addDays 0 0 \<mapsto> Finite 110, addDays 0 1 \<mapsto> Finite 121,
        addDays 0 2 \<mapsto> Finite 242, addDays 0 3 \<mapsto> Finite 121, addDays 0 4 \<mapsto> Finite 242,
        addDays 0 5 \<mapsto> Finite 484]"
  by (simp add: sampleAssetMap_def loadDailyRecords_def sampleReadRecords_def bitcoinSymbol_def
        getTimeOfDay_def getDate_def sessionEnd_def addDays_def nsPerDay_def)

lemma sampleReferenceMap_eq:
  "sampleReferenceMap
     = [addDays 0 (- 1) \<mapsto> Finite 50, addDays 0 0 \<mapsto> Finite 100, addDays 0 1 \<mapsto> Finite 100,
        addDays 0 2 \<mapsto> Finite 50, addDays 0 3 \<mapsto> Finite 100, addDays 0 4 \<mapsto> Finite 200,
        addDays 0 5 \<mapsto> Finite 100]"
  by (simp add: sampleReferenceMap_def loadDailyRecords_def sampleReadRecords_def bitcoinSymbol_def
        getTimeOfDay_def getDate_def sessionEnd_def addDays_def nsPerDay_def)

lemma sampleIndexMap_eq:
  "sampleIndexMap
     = [addDays 0 0 \<mapsto> Finite 100, addDays 0 1 \<mapsto> Finite 110, addDays 0 4 \<mapsto> Finite 220]"
  by (simp add: sampleIndexMap_def loadDailyRecords_def sampleReadRecords_def)

lemma sampleIndex_lookups:
  "getClosestRecord (addDays 0 0) sampleIndexMap = (addDays 0 0, Finite 100, True)"
  "getClosestRecord (addDays 0 (- 1)) sampleIndexMap = (zeroTime, NaN, False)"
  "getClosestRecord (addDays 0 1) sampleIndexMap = (addDays 0 1, Finite 110, True)"
  "getClosestRecord (addDays 0 2) sampleIndexMap = (addDays 0 1, Finite 110, True)"
  "getClosestRecord (addDays 0 3) sampleIndexMap = (addDays 0 1, Finite 110, True)"
  "getClosestRecord (addDays 0 4) sampleIndexMap = (addDays 0 4, Finite 220, True)"
  by (simp_all add: sampleIndexMap_eq getClosestRecord_def numeral_eq_Suc addDays_def nsPerDay_def)


lemma sampleWeekdays:
  "Weekday (addDays 0 0) = Thursday" "Weekday (addDays 0 1) = Friday"
  "Weekday (addDays 0 2) = Saturday" "Weekday (addDays 0 3) = Sunday"
  "Weekday (addDays 0 4) = Monday"
  by (simp_all add: Weekday_def addDays_def nsPerDay_def Thursday_def Friday_def Saturday_def
        Sunday_def Monday_def)

lemma sample_dailyExample:
  "dailyExample sampleConfiguration ''ETHUSDT'' sampleAssetMap sampleReferenceMap sampleIndexMap
     (addDays 0 0) = None"
  "dailyExample sampleConfiguration ''ETHUSDT'' sampleAssetMap sampleReferenceMap sampleIndexMap
     (addDays 0 1)
     = Some ([Finite (1 / 10), Finite 0, Finite (1 / 10),
              Finite 0, Finite 0, Finite 0, Finite 0, Finite 1, Finite 0, Finite 0], Finite 1)"
  "dailyExample sampleConfiguration ''ETHUSDT'' sampleAssetMap sampleReferenceMap sampleIndexMap
     (addDays 0 2)
     = Some ([Finite 1, Finite (- 1 / 2), Finite (1 / 10),
              Finite 0, Finite 0, Finite 0, Finite 0, Finite 0, Finite 1, Finite 0], Finite (- 1 / 2))"
  "dailyExample sampleConfiguration ''ETHUSDT'' sampleAssetMap sampleReferenceMap sampleIndexMap
     (addDays 0 3)
     = Some ([Finite (- 1 / 2), Finite 1, Finite (1 / 10),
              Finite 0, Finite 0, Finite 0, Finite 0, Finite 0, Finite 0, Finite 1], Finite 1)"
  "dailyExample sampleConfiguration ''ETHUSDT'' sampleAssetMap sampleReferenceMap sampleIndexMap
     (addDays 0 4)
     = Some ([Finite 1, Finite 1, Finite 1,
              Finite 1, Finite 0, Finite 0, Finite 0, Finite 0, Finite 0, Finite 0], Finite 1)"
  unfolding dailyExample_def sampleIndex_lookups sampleWeekdays
  by (simp_all add: sampleIndex_lookups [unfolded addDays_def nsPerDay_def, simplified]
        sampleConfiguration_def sampleAssetMap_eq sampleReferenceMap_eq
        dailyFeatures_def weekdayFeatures_def weekdayIndex_def daysPerWeek_def
        getRateOfChange_def fsub_def bitcoinSymbol_def
        Thursday_def Friday_def Saturday_def Sunday_def Monday_def
        addDays_def nsPerDay_def upto.simps Let_def)


lemma sampleDates:
  "loopDates (StartDate sampleConfiguration) (EndDate sampleConfiguration)
     = [addDays 0 0, addDays 0 1, addDays 0 2, addDays 0 3]"
  by (simp add: loopDates.simps sampleConfiguration_def addDays_def nsPerDay_def)

theorem buildPartitions_routing_witness:
  "zip (trainingFeatures (buildPartitions sampleConfiguration ''ETHUSDT''
                            sampleAssetMap sampleReferenceMap sampleIndexMap))
       (trainingLabels (buildPartitions sampleConfiguration ''ETHUSDT''
                            sampleAssetMap sampleReferenceMap sampleIndexMap))
     = [([Finite (1 / 10), Finite 0, Finite (1 / 10),
          Finite 0, Finite 0, Finite 0, Finite 0, Finite 1, Finite 0, Finite 0], Finite 1)]
   \<and> zip (testFeatures (buildPartitions sampleConfiguration ''ETHUSDT''
                            sampleAssetMap sampleReferenceMap sampleIndexMap))
         (testLabels (buildPartitions sampleConfiguration ''ETHUSDT''
                            sampleAssetMap sampleReferenceMap sampleIndexMap))
     = [([Finite 1, Finite (- 1 / 2), Finite (1 / 10),
          Finite 0, Finite 0, Finite 0, Finite 0, Finite 0, Finite 1, Finite 0], Finite (- 1 / 2)),
        ([Finite (- 1 / 2), Finite 1, Finite (1 / 10),
          Finite 0, Finite 0, Finite 0, Finite 0, Finite 0, Finite 0, Finite 1], Finite 1)]"
proof -
  have split: "SplitDate sampleConfiguration = addDays 0 2"
    and ending: "EndDate sampleConfiguration = addDays 0 4"
    by (simp_all add: sampleConfiguration_def)
  have tr: "filter (\<lambda>d. d < addDays 0 2) [addDays 0 0, addDays 0 1, addDays 0 2, addDays 0 3]
              = [addDays 0 0, addDays 0 1]"
    by (simp add: addDays_def nsPerDay_def)
  have te: "filter (\<lambda>d. addDays 0 2 \<le> d \<and> d < addDays 0 4)
              [addDays 0 0, addDays 0 1, addDays 0 2, addDays 0 3]
              = [addDays 0 2, addDays 0 3]"
    by (simp add: addDays_def nsPerDay_def)
  show ?thesis
    using buildPartitions_routing
            [of sampleConfiguration "''ETHUSDT''" sampleAssetMap sampleReferenceMap sampleIndexMap]
    unfolding sampleDates unfolding split ending tr te
    by (simp add: List.map_filter_simps sample_dailyExample)
qed


section \<open>Properties of one day's example\<close>

lemma dailyExample_Some:
  assumes "dailyExample cfg symbol assetMap referenceMap indexMap date = Some (features, label)"
  shows "\<exists>foundDate currentIndexClose previousFound previousIndexClose
           currentAssetClose previousAssetClose nextAssetClose
           currentReferenceClose previousReferenceClose.
           (EnableWeekdayFilter cfg \<longrightarrow> Weekday date = WeekdayFilter cfg)
           \<and> getClosestRecord date indexMap = (foundDate, currentIndexClose, True)
           \<and> getClosestRecord (addDays foundDate (- 1)) indexMap
                 = (previousFound, previousIndexClose, True)
           \<and> assetMap date = Some currentAssetClose
           \<and> assetMap (addDays date (- 1)) = Some previousAssetClose
           \<and> assetMap (addDays date (HoldingTime cfg)) = Some nextAssetClose
           \<and> referenceMap date = Some currentReferenceClose
           \<and> referenceMap (addDays date (- 1)) = Some previousReferenceClose
           \<and> features = dailyFeatures cfg
                 (getRateOfChange currentAssetClose previousAssetClose)
                 (if symbol \<noteq> bitcoinSymbol
                  then getRateOfChange currentReferenceClose previousReferenceClose
                  else Finite 0)
                 (getRateOfChange currentIndexClose previousIndexClose)
                 (Weekday date)
           \<and> label = getRateOfChange nextAssetClose currentAssetClose"
  using assms unfolding dailyExample_def Let_def
  by (auto split: prod.splits option.splits if_splits)

lemma dailyExample_no_prior:
  assumes "getClosestRecord date indexMap = (foundDate, currentIndexClose, True)"
    and "getClosestRecord (addDays foundDate (- 1)) indexMap = (d, c, False)"
  shows "dailyExample cfg symbol assetMap referenceMap indexMap date = None"
  using assms unfolding dailyExample_def Let_def by simp

lemma upto_week: "[0..daysPerWeek - 1] = [0, 1, 2, 3, 4, 5, 6]"
  by (simp add: daysPerWeek_def upto.simps)

lemma weekdayIndex_range: "weekdayIndex w \<in> {0, 1, 2, 3, 4, 5, 6}"
proof -
  have "0 \<le> weekdayIndex w" "weekdayIndex w < 7"
    by (simp_all add: weekdayIndex_def daysPerWeek_def)
  then show ?thesis by auto
qed

lemma weekdayFeatures_length: "length (weekdayFeatures w) = 7"
  by (simp add: weekdayFeatures_def upto_week)

lemma weekdayFeatures_nth:
  "j < 7 \<Longrightarrow> weekdayFeatures w ! j = (if int j = weekdayIndex w then Finite 1 else Finite 0)"
proof -
  assume "j < 7"
  then have "j \<in> {0, 1, 2, 3, 4, 5, 6}" by auto
  then show ?thesis
    by (auto simp: weekdayFeatures_def upto_week)
qed

lemma weekdayFeatures_one: "length (filter (\<lambda>v. v = Finite 1) (weekdayFeatures w)) = 1"
  using weekdayIndex_range [of w] by (auto simp: weekdayFeatures_def upto_week)

lemma weekdayIndex_Monday: "weekdayIndex Monday = 0"
  by (simp add: weekdayIndex_def Monday_def daysPerWeek_def)


lemma dailyExample_found:
  assumes "EnableWeekdayFilter cfg \<longrightarrow> Weekday date = WeekdayFilter cfg"
    and "getClosestRecord date indexMap = (foundDate, currentIndexClose, True)"
    and "getClosestRecord (addDays foundDate (- 1)) indexMap
           = (previousFound, previousIndexClose, True)"
    and "assetMap date = Some currentAssetClose"
    and "assetMap (addDays date (- 1)) = Some previousAssetClose"
    and "assetMap (addDays date (HoldingTime cfg)) = Some nextAssetClose"
    and "referenceMap date = Some currentReferenceClose"
    and "referenceMap (addDays date (- 1)) = Some previousReferenceClose"
  shows "dailyExample cfg symbol assetMap referenceMap indexMap date
           = Some (dailyFeatures cfg
                     (getRateOfChange currentAssetClose previousAssetClose)
                     (if symbol \<noteq> bitcoinSymbol
                      then getRateOfChange currentReferenceClose previousReferenceClose
                      else Finite 0)
                     (getRateOfChange currentIndexClose previousIndexClose)
                     (Weekday date),
                   getRateOfChange nextAssetClose currentAssetClose)"
  using assms unfolding dailyExample_def Let_def by auto

text \<open>
  Claim C6. For a date that passes the weekday filter and has the asset and reference
  closes it needs, let the closest-prior lookup at the date find the current index close
  at some date. If the closest-prior lookup at that found date minus one day finds a
  previous index close, the date yields an example whose index momentum is the rate of
  change between these two closes; if it finds nothing, the date is skipped. Conversely,
  every example has an index momentum obtained in this way: the second lookup is anchored
  at the date found by the first, not at the date of the example minus one day.
\<close>

theorem dailyExample_index_anchor:
  "(dailyExample cfg symbol assetMap referenceMap indexMap date = Some (features, label) \<longrightarrow>
      (\<exists>foundDate currentIndexClose previousFound previousIndexClose
          assetMomentum referenceMomentum.
          getClosestRecord date indexMap = (foundDate, currentIndexClose, True)
          \<and> getClosestRecord (addDays foundDate (- 1)) indexMap
                = (previousFound, previousIndexClose, True)
          \<and> features = dailyFeatures cfg assetMomentum referenceMomentum
                (getRateOfChange currentIndexClose previousIndexClose) (Weekday date)))
   \<and> (getClosestRecord date indexMap = (found, close, True)
        \<and> getClosestRecord (addDays found (- 1)) indexMap = (d, c, False)
        \<longrightarrow> dailyExample cfg symbol assetMap referenceMap indexMap date = None)
   \<and> ((EnableWeekdayFilter cfg \<longrightarrow> Weekday date = WeekdayFilter cfg)
        \<and> getClosestRecord date indexMap = (foundDate, currentIndexClose, True)
        \<and> getClosestRecord (addDays foundDate (- 1)) indexMap
              = (previousFound, previousIndexClose, True)
        \<and> assetMap date = Some currentAssetClose
        \<and> assetMap (addDays date (- 1)) = Some previousAssetClose
        \<and> assetMap (addDays date (HoldingTime cfg)) = Some nextAssetClose
        \<and> referenceMap date = Some currentReferenceClose
        \<and> referenceMap (addDays date (- 1)) = Some previousReferenceClose
        \<longrightarrow> dailyExample cfg symbol assetMap referenceMap indexMap date
              = Some (dailyFeatures cfg
                        (getRateOfChange currentAssetClose previousAssetClose)
                        (if symbol \<noteq> bitcoinSymbol
                         then getRateOfChange currentReferenceClose previousReferenceClose
                         else Finite 0)
                        (getRateOfChange currentIndexClose previousIndexClose)
                        (Weekday date),
                      getRateOfChange nextAssetClose currentAssetClose))"
proof (intro conjI impI)
  assume "dailyExample cfg symbol assetMap referenceMap indexMap date = Some (features, label)"
  from dailyExample_Some [OF this]
  show "\<exists>foundDate currentIndexClose previousFound previousIndexClose
          assetMomentum referenceMomentum.
          getClosestRecord date indexMap = (foundDate, currentIndexClose, True)
          \<and> getClosestRecord (addDays foundDate (- 1)) indexMap
                = (previousFound, previousIndexClose, True)
          \<and> features = dailyFeatures cfg assetMomentum referenceMomentum
                (getRateOfChange currentIndexClose previousIndexClose) (Weekday date)"
    by blast
next
  assume "getClosestRecord date indexMap = (found, close, True)
        \<and> getClosestRecord (addDays found (- 1)) indexMap = (d, c, False)"
  then show "dailyExample cfg symbol assetMap referenceMap indexMap date = None"
    using dailyExample_no_prior by blast
next
  assume a: "(EnableWeekdayFilter cfg \<longrightarrow> Weekday date = WeekdayFilter cfg)
        \<and> getClosestRecord date indexMap = (foundDate, currentIndexClose, True)
        \<and> getClosestRecord (addDays foundDate (- 1)) indexMap
              = (previousFound, previousIndexClose, True)
        \<and> assetMap date = Some currentAssetClose
        \<and> assetMap (addDays date (- 1)) = Some previousAssetClose
        \<and> assetMap (addDays date (HoldingTime cfg)) = Some nextAssetClose
        \<and> referenceMap date = Some currentReferenceClose
        \<and> referenceMap (addDays date (- 1)) = Some previousReferenceClose"
  then have h: "EnableWeekdayFilter cfg \<longrightarrow> Weekday date = WeekdayFilter cfg"
    "getClosestRecord date indexMap = (foundDate, currentIndexClose, True)"
    "getClosestRecord (addDays foundDate (- 1)) indexMap
       = (previousFound, previousIndexClose, True)"
    "assetMap date = Some currentAssetClose"
    "assetMap (addDays date (- 1)) = Some previousAssetClose"
    "assetMap (addDays date (HoldingTime cfg)) = Some nextAssetClose"
    "referenceMap date = Some currentReferenceClose"
    "referenceMap (addDays date (- 1)) = Some previousReferenceClose"
    by blast+
  show "dailyExample cfg symbol assetMap referenceMap indexMap date
              = Some (dailyFeatures cfg
                        (getRateOfChange currentAssetClose previousAssetClose)
                        (if symbol \<noteq> bitcoinSymbol
                         then getRateOfChange currentReferenceClose previousReferenceClose
                         else Finite 0)
                        (getRateOfChange currentIndexClose previousIndexClose)
                        (Weekday date),
                      getRateOfChange nextAssetClose currentAssetClose)"
    by (rule dailyExample_found [OF h])
qed

theorem dailyExample_index_anchor_witness:
  "getClosestRecord (addDays 0 3) sampleIndexMap = (addDays 0 1, Finite 110, True)
   \<and> getClosestRecord (addDays (addDays 0 1) (- 1)) sampleIndexMap = (addDays 0 0, Finite 100, True)
   \<and> getClosestRecord (addDays (addDays 0 3) (- 1)) sampleIndexMap = (addDays 0 1, Finite 110, True)
   \<and> dailyExample sampleConfiguration ''ETHUSDT'' sampleAssetMap sampleReferenceMap sampleIndexMap
         (addDays 0 3)
       = Some ([Finite (- 1 / 2), Finite 1, Finite (1 / 10),
                Finite 0, Finite 0, Finite 0, Finite 0, Finite 0, Finite 0, Finite 1], Finite 1)
   \<and> getRateOfChange (Finite 110) (Finite 100) = Finite (1 / 10)
   \<and> getRateOfChange (Finite 110) (Finite 110) = Finite 0
   \<and> (\<exists>assetMomentum referenceMomentum.
         [Finite (- 1 / 2), Finite 1, Finite (1 / 10),
          Finite 0, Finite 0, Finite 0, Finite 0, Finite 0, Finite 0, Finite 1]
           = dailyFeatures sampleConfiguration assetMomentum referenceMomentum
               (getRateOfChange (Finite 110) (Finite 100)) (Weekday (addDays 0 3)))
   \<and> getClosestRecord (addDays 0 0) sampleIndexMap = (addDays 0 0, Finite 100, True)
   \<and> getClosestRecord (addDays (addDays 0 0) (- 1)) sampleIndexMap = (zeroTime, NaN, False)
   \<and> dailyExample sampleConfiguration ''ETHUSDT'' sampleAssetMap sampleReferenceMap sampleIndexMap
         (addDays 0 0) = None"
proof -
  have back1: "addDays (addDays 0 1) (- 1) = addDays 0 0"
    and back3: "addDays (addDays 0 3) (- 1) = addDays 0 2"
    and back0: "addDays (addDays 0 0) (- 1) = addDays 0 (- 1)"
    by (simp_all add: addDays_def)
  note look = sampleIndex_lookups
  have a: "getClosestRecord (addDays 0 3) sampleIndexMap = (addDays 0 1, Finite 110, True)"
    by (rule look)
  have b: "getClosestRecord (addDays (addDays 0 1) (- 1)) sampleIndexMap
             = (addDays 0 0, Finite 100, True)"
    unfolding back1 by (rule look)
  have c: "getClosestRecord (addDays (addDays 0 3) (- 1)) sampleIndexMap
             = (addDays 0 1, Finite 110, True)"
    unfolding back3 by (rule look)
  have e: "getClosestRecord (addDays 0 0) sampleIndexMap = (addDays 0 0, Finite 100, True)"
    by (rule look)
  have f: "getClosestRecord (addDays (addDays 0 0) (- 1)) sampleIndexMap = (zeroTime, NaN, False)"
    unfolding back0 by (rule look)
  have flt: "EnableWeekdayFilter sampleConfiguration
               \<longrightarrow> Weekday (addDays 0 3) = WeekdayFilter sampleConfiguration"
    by (simp add: sampleConfiguration_def)
  have asset: "sampleAssetMap (addDays 0 3) = Some (Finite 121)"
    "sampleAssetMap (addDays (addDays 0 3) (- 1)) = Some (Finite 242)"
    "sampleAssetMap (addDays (addDays 0 3) (HoldingTime sampleConfiguration)) = Some (Finite 242)"
    by (simp_all add: sampleAssetMap_eq sampleConfiguration_def addDays_def nsPerDay_def)
  have reference: "sampleReferenceMap (addDays 0 3) = Some (Finite 100)"
    "sampleReferenceMap (addDays (addDays 0 3) (- 1)) = Some (Finite 50)"
    by (simp_all add: sampleReferenceMap_eq addDays_def nsPerDay_def)
  have "dailyExample sampleConfiguration ''ETHUSDT'' sampleAssetMap sampleReferenceMap
          sampleIndexMap (addDays 0 3)
        = Some (dailyFeatures sampleConfiguration
                  (getRateOfChange (Finite 121) (Finite 242))
                  (if ''ETHUSDT'' \<noteq> bitcoinSymbol
                   then getRateOfChange (Finite 100) (Finite 50) else Finite 0)
                  (getRateOfChange (Finite 110) (Finite 100))
                  (Weekday (addDays 0 3)),
                getRateOfChange (Finite 242) (Finite 121))"
    using dailyExample_index_anchor
            [where cfg = sampleConfiguration and symbol = "''ETHUSDT''"
               and assetMap = sampleAssetMap and referenceMap = sampleReferenceMap
               and indexMap = sampleIndexMap and date = "addDays 0 3"
               and foundDate = "addDays 0 1" and currentIndexClose = "Finite 110"
               and previousFound = "addDays 0 0" and previousIndexClose = "Finite 100"
               and currentAssetClose = "Finite 121" and previousAssetClose = "Finite 242"
               and nextAssetClose = "Finite 242" and currentReferenceClose = "Finite 100"
               and previousReferenceClose = "Finite 50"]
          flt a b asset reference
    by blast
  moreover have "dailyFeatures sampleConfiguration
                  (getRateOfChange (Finite 121) (Finite 242))
                  (if ''ETHUSDT'' \<noteq> bitcoinSymbol
                   then getRateOfChange (Finite 100) (Finite 50) else Finite 0)
                  (getRateOfChange (Finite 110) (Finite 100))
                  (Weekday (addDays 0 3))
        = [Finite (- 1 / 2), Finite 1, getRateOfChange (Finite 110) (Finite 100),
           Finite 0, Finite 0, Finite 0, Finite 0, Finite 0, Finite 0, Finite 1]"
    unfolding sampleWeekdays
    by (simp add: dailyFeatures_def sampleConfiguration_def weekdayFeatures_def upto.simps
          weekdayIndex_def daysPerWeek_def Sunday_def bitcoinSymbol_def
          getRateOfChange_def fsub_def)
  moreover have "getRateOfChange (Finite 242) (Finite 121) = Finite 1"
    by (simp add: getRateOfChange_def fsub_def)
  ultimately have ex: "dailyExample sampleConfiguration ''ETHUSDT'' sampleAssetMap
                         sampleReferenceMap sampleIndexMap (addDays 0 3)
       = Some ([Finite (- 1 / 2), Finite 1, getRateOfChange (Finite 110) (Finite 100),
                Finite 0, Finite 0, Finite 0, Finite 0, Finite 0, Finite 0, Finite 1], Finite 1)"
    by simp
  have r1: "getRateOfChange (Finite 110) (Finite 100) = Finite (1 / 10)"
    and r0: "getRateOfChange (Finite 110) (Finite 110) = Finite 0"
    by (simp_all add: getRateOfChange_def fsub_def)
  from dailyExample_index_anchor
         [of sampleConfiguration "''ETHUSDT''" sampleAssetMap sampleReferenceMap sampleIndexMap
             "addDays 0 3"
             "[Finite (- 1 / 2), Finite 1, Finite (1 / 10),
               Finite 0, Finite 0, Finite 0, Finite 0, Finite 0, Finite 0, Finite 1]"
             "Finite 1"]
       ex [unfolded r1]
  have "\<exists>foundDate currentIndexClose previousFound previousIndexClose
          assetMomentum referenceMomentum.
          getClosestRecord (addDays 0 3) sampleIndexMap = (foundDate, currentIndexClose, True)
          \<and> getClosestRecord (addDays foundDate (- 1)) sampleIndexMap
                = (previousFound, previousIndexClose, True)
          \<and> [Finite (- 1 / 2), Finite 1, Finite (1 / 10),
               Finite 0, Finite 0, Finite 0, Finite 0, Finite 0, Finite 0, Finite 1]
              = dailyFeatures sampleConfiguration assetMomentum referenceMomentum
                (getRateOfChange currentIndexClose previousIndexClose) (Weekday (addDays 0 3))"
    by blast
  then have g: "\<exists>assetMomentum referenceMomentum.
         [Finite (- 1 / 2), Finite 1, Finite (1 / 10),
          Finite 0, Finite 0, Finite 0, Finite 0, Finite 0, Finite 0, Finite 1]
           = dailyFeatures sampleConfiguration assetMomentum referenceMomentum
               (getRateOfChange (Finite 110) (Finite 100)) (Weekday (addDays 0 3))"
    unfolding a using b by auto
  have h: "dailyExample sampleConfiguration ''ETHUSDT'' sampleAssetMap sampleReferenceMap
             sampleIndexMap (addDays 0 0) = None"
    using dailyExample_index_anchor
            [of sampleConfiguration "''ETHUSDT''" sampleAssetMap sampleReferenceMap sampleIndexMap
                "addDays 0 0" _ _ "addDays 0 0" "Finite 100" zeroTime NaN] e f
    by blast
  note ex' = ex [unfolded r1]
  from a b c ex' r1 r0 g e f h show ?thesis by blast
qed

text \<open>
  Claim C7. With weekday features enabled, the feature vector of a date that is not
  skipped is, in this order: the asset momentum if enabled, the reference momentum if
  enabled (0 for the reference symbol itself), the index momentum if enabled, and seven
  weekday slots. Slot \<open>j\<close> is 1 when \<open>j = (weekday + 6) mod 7\<close> and 0 otherwise, so
  exactly one slot is 1, and on a Monday it is slot 0.
\<close>

theorem dailyExample_feature_vector:
  "dailyExample cfg symbol assetMap referenceMap indexMap date = Some (features, label)
     \<and> EnableWeekdays cfg \<longrightarrow>
   (\<exists>currentAssetClose previousAssetClose currentReferenceClose previousReferenceClose
       foundDate currentIndexClose previousFound previousIndexClose oneHot.
       assetMap date = Some currentAssetClose
       \<and> assetMap (addDays date (- 1)) = Some previousAssetClose
       \<and> referenceMap date = Some currentReferenceClose
       \<and> referenceMap (addDays date (- 1)) = Some previousReferenceClose
       \<and> getClosestRecord date indexMap = (foundDate, currentIndexClose, True)
       \<and> getClosestRecord (addDays foundDate (- 1)) indexMap
             = (previousFound, previousIndexClose, True)
       \<and> features
           = (if EnableMomentum cfg
              then [getRateOfChange currentAssetClose previousAssetClose] else [])
             @ (if EnableReference cfg
                then [if symbol \<noteq> bitcoinSymbol
                      then getRateOfChange currentReferenceClose previousReferenceClose
                      else Finite 0]
                else [])
             @ (if EnableIndex cfg
                then [getRateOfChange currentIndexClose previousIndexClose] else [])
             @ oneHot
       \<and> length oneHot = 7
       \<and> (\<forall>j < 7. oneHot ! j
              = (if int j = (Weekday date + 6) mod 7 then Finite 1 else Finite 0))
       \<and> length (filter (\<lambda>v. v = Finite 1) oneHot) = 1
       \<and> (Weekday date = Monday \<longrightarrow> oneHot ! 0 = Finite 1))"
proof
  assume a: "dailyExample cfg symbol assetMap referenceMap indexMap date = Some (features, label)
     \<and> EnableWeekdays cfg"
  then have ex: "dailyExample cfg symbol assetMap referenceMap indexMap date = Some (features, label)"
    and wd: "EnableWeekdays cfg" by simp_all
  from dailyExample_Some [OF ex] obtain foundDate currentIndexClose previousFound
      previousIndexClose currentAssetClose previousAssetClose nextAssetClose
      currentReferenceClose previousReferenceClose
    where look: "getClosestRecord date indexMap = (foundDate, currentIndexClose, True)"
        "getClosestRecord (addDays foundDate (- 1)) indexMap
           = (previousFound, previousIndexClose, True)"
      and asset: "assetMap date = Some currentAssetClose"
        "assetMap (addDays date (- 1)) = Some previousAssetClose"
      and reference: "referenceMap date = Some currentReferenceClose"
        "referenceMap (addDays date (- 1)) = Some previousReferenceClose"
      and f: "features = dailyFeatures cfg
                 (getRateOfChange currentAssetClose previousAssetClose)
                 (if symbol \<noteq> bitcoinSymbol
                  then getRateOfChange currentReferenceClose previousReferenceClose
                  else Finite 0)
                 (getRateOfChange currentIndexClose previousIndexClose)
                 (Weekday date)"
    by blast
  let ?oneHot = "weekdayFeatures (Weekday date)"
  have f': "features
           = (if EnableMomentum cfg
              then [getRateOfChange currentAssetClose previousAssetClose] else [])
             @ (if EnableReference cfg
                then [if symbol \<noteq> bitcoinSymbol
                      then getRateOfChange currentReferenceClose previousReferenceClose
                      else Finite 0]
                else [])
             @ (if EnableIndex cfg
                then [getRateOfChange currentIndexClose previousIndexClose] else [])
             @ ?oneHot"
    unfolding f dailyFeatures_def using wd by simp
  have n: "\<forall>j < 7. ?oneHot ! j
              = (if int j = (Weekday date + 6) mod 7 then Finite 1 else Finite 0)"
    using weekdayFeatures_nth [of _ "Weekday date"]
    by (simp add: weekdayIndex_def daysPerWeek_def)
  have mon: "Weekday date = Monday \<longrightarrow> ?oneHot ! 0 = Finite 1"
    using weekdayFeatures_nth [of 0 Monday] weekdayIndex_Monday by simp
  from look asset reference f' weekdayFeatures_length [of "Weekday date"] n
       weekdayFeatures_one [of "Weekday date"] mon
  show "\<exists>currentAssetClose previousAssetClose currentReferenceClose previousReferenceClose
       foundDate currentIndexClose previousFound previousIndexClose oneHot.
       assetMap date = Some currentAssetClose
       \<and> assetMap (addDays date (- 1)) = Some previousAssetClose
       \<and> referenceMap date = Some currentReferenceClose
       \<and> referenceMap (addDays date (- 1)) = Some previousReferenceClose
       \<and> getClosestRecord date indexMap = (foundDate, currentIndexClose, True)
       \<and> getClosestRecord (addDays foundDate (- 1)) indexMap
             = (previousFound, previousIndexClose, True)
       \<and> features
           = (if EnableMomentum cfg
              then [getRateOfChange currentAssetClose previousAssetClose] else [])
             @ (if EnableReference cfg
                then [if symbol \<noteq> bitcoinSymbol
                      then getRateOfChange currentReferenceClose previousReferenceClose
                      else Finite 0]
                else [])
             @ (if EnableIndex cfg
                then [getRateOfChange currentIndexClose previousIndexClose] else [])
             @ oneHot
       \<and> length oneHot = 7
       \<and> (\<forall>j < 7. oneHot ! j
              = (if int j = (Weekday date + 6) mod 7 then Finite 1 else Finite 0))
       \<and> length (filter (\<lambda>v. v = Finite 1) oneHot) = 1
       \<and> (Weekday date = Monday \<longrightarrow> oneHot ! 0 = Finite 1)"
    by blast
qed


theorem dailyExample_feature_vector_witness:
  "Weekday (addDays 0 4) = Monday
   \<and> EnableWeekdays sampleConfiguration
   \<and> dailyExample sampleConfiguration ''ETHUSDT'' sampleAssetMap sampleReferenceMap sampleIndexMap
         (addDays 0 4)
       = Some ([Finite 1, Finite 1, Finite 1,
                Finite 1, Finite 0, Finite 0, Finite 0, Finite 0, Finite 0, Finite 0], Finite 1)
   \<and> (\<exists>oneHot.
         [Finite 1, Finite 1, Finite 1,
          Finite 1, Finite 0, Finite 0, Finite 0, Finite 0, Finite 0, Finite 0]
           = [Finite 1, Finite 1, Finite 1] @ oneHot
         \<and> length oneHot = 7 \<and> oneHot ! 0 = Finite 1
         \<and> length (filter (\<lambda>v. v = Finite 1) oneHot) = 1)"
proof -
  have wd: "Weekday (addDays 0 4) = Monday" by (rule sampleWeekdays)
  have en: "EnableWeekdays sampleConfiguration" "EnableMomentum sampleConfiguration"
    "EnableReference sampleConfiguration" "EnableIndex sampleConfiguration"
    by (simp_all add: sampleConfiguration_def)
  note ex = sample_dailyExample(5)
  from dailyExample_feature_vector
         [of sampleConfiguration "''ETHUSDT''" sampleAssetMap sampleReferenceMap sampleIndexMap
             "addDays 0 4"
             "[Finite 1, Finite 1, Finite 1,
               Finite 1, Finite 0, Finite 0, Finite 0, Finite 0, Finite 0, Finite 0]"
             "Finite 1"] ex en(1)
  obtain a b c oneHot where
    f: "[Finite 1, Finite 1, Finite 1,
         Finite 1, Finite 0, Finite 0, Finite 0, Finite 0, Finite 0, Finite 0]
          = (if EnableMomentum sampleConfiguration then [a] else [])
            @ (if EnableReference sampleConfiguration then [b] else [])
            @ (if EnableIndex sampleConfiguration then [c] else [])
            @ oneHot"
    and len: "length oneHot = 7"
    and one: "length (filter (\<lambda>v. v = Finite 1) oneHot) = 1"
    and mon: "Weekday (addDays 0 4) = Monday \<longrightarrow> oneHot ! 0 = Finite 1"
    by blast
  from f en have "[Finite 1, Finite 1, Finite 1,
         Finite 1, Finite 0, Finite 0, Finite 0, Finite 0, Finite 0, Finite 0]
          = [Finite 1, Finite 1, Finite 1] @ oneHot"
    by auto
  with len one mon wd en(1) ex show ?thesis by blast
qed

section \<open>Properties of the report row\<close>

lemma addReturns_append:
  "addReturns cfg lib returns row = row @ addReturns cfg lib returns []"
  by (simp add: addReturns_def split: prod.splits)

lemma getRegressionCells_Inr:
  assumes "getRegressionCells cfg lib readRecords learn symbol startDate referenceMap indexMap
             = Inr d"
  defines "ps \<equiv> buildPartitions cfg symbol
                   (loadDailyRecords readRecords symbol startDate True False)
                   referenceMap indexMap"
  shows "\<exists>model cells2 isR2 oosR2 longReturns shortReturns.
           learn (trainingFeatures ps) (trainingLabels ps) = Some model
           \<and> getR2Score lib (trainingFeatures ps) (trainingLabels ps) model = Inr isR2
           \<and> getR2Score lib (testFeatures ps) (testLabels ps) model = Inr oosR2
           \<and> runBacktest cfg (testFeatures ps) (testLabels ps) model
                 = Inr (longReturns, shortReturns)
           \<and> cells d = addReturns cfg lib shortReturns
                          (addReturns cfg lib longReturns
                             (addR2Score lib oosR2 (addR2Score lib isR2 cells2)))
           \<and> oosR2Score d = oosR2"
  using assms(1) unfolding getRegressionCells_def ps_def Let_def
  by (auto split: option.splits sum.splits prod.splits)

text \<open>
  Claim C9. The two cells that \<open>addReturns\<close> appends for a return stream are both
  \<open>-\<close> when the sum of the stream is 0, whatever the Sharpe ratio is; otherwise they are
  the formatted sum and the formatted Sharpe ratio. The row of an asset ends with these
  two cells for the long stream followed by the two for the short stream.
\<close>

theorem addReturns_placeholder:
  "fst (analyzeReturns cfg lib returns) = foldl fadd (Finite 0) returns
   \<and> snd (analyzeReturns cfg lib returns) = getSharpeRatio cfg lib returns
   \<and> (foldl fadd (Finite 0) returns = Finite 0 \<longrightarrow>
        addReturns cfg lib returns row = row @ [''-'', ''-''])
   \<and> (foldl fadd (Finite 0) returns \<noteq> Finite 0 \<longrightarrow>
        addReturns cfg lib returns row
          = row @ [FormatPercentage lib (foldl fadd (Finite 0) returns) 2,
                     Sprintf lib ''%.2f'' (getSharpeRatio cfg lib returns)])
   \<and> (getRegressionCells cfg lib readRecords learn symbol startDate referenceMap indexMap = Inr d
        \<longrightarrow> (\<exists>model longReturns shortReturns prefix.
              runBacktest cfg
                (testFeatures (buildPartitions cfg symbol
                   (loadDailyRecords readRecords symbol startDate True False)
                   referenceMap indexMap))
                (testLabels (buildPartitions cfg symbol
                   (loadDailyRecords readRecords symbol startDate True False)
                   referenceMap indexMap))
                model = Inr (longReturns, shortReturns)
              \<and> cells d = prefix @ addReturns cfg lib longReturns []
                                  @ addReturns cfg lib shortReturns []))"
proof (intro conjI impI)
  show "fst (analyzeReturns cfg lib returns) = foldl fadd (Finite 0) returns"
    by (simp add: analyzeReturns_def Let_def)
  show "snd (analyzeReturns cfg lib returns) = getSharpeRatio cfg lib returns"
    by (simp add: analyzeReturns_def Let_def)
  show "addReturns cfg lib returns row = row @ [''-'', ''-'']"
    if "foldl fadd (Finite 0) returns = Finite 0"
    using that by (simp add: addReturns_def analyzeReturns_def fne_def Let_def)
  show "addReturns cfg lib returns row
          = row @ [FormatPercentage lib (foldl fadd (Finite 0) returns) 2,
                     Sprintf lib ''%.2f'' (getSharpeRatio cfg lib returns)]"
    if "foldl fadd (Finite 0) returns \<noteq> Finite 0"
    using that by (simp add: addReturns_def analyzeReturns_def fne_def Let_def)
  show "\<exists>model longReturns shortReturns prefix.
              runBacktest cfg
                (testFeatures (buildPartitions cfg symbol
                   (loadDailyRecords readRecords symbol startDate True False)
                   referenceMap indexMap))
                (testLabels (buildPartitions cfg symbol
                   (loadDailyRecords readRecords symbol startDate True False)
                   referenceMap indexMap))
                model = Inr (longReturns, shortReturns)
              \<and> cells d = prefix @ addReturns cfg lib longReturns []
                                  @ addReturns cfg lib shortReturns []"
    if "getRegressionCells cfg lib readRecords learn symbol startDate referenceMap indexMap = Inr d"
  proof -
    from getRegressionCells_Inr [OF that] obtain model cells2 isR2 oosR2 longReturns shortReturns
      where bt: "runBacktest cfg
                (testFeatures (buildPartitions cfg symbol
                   (loadDailyRecords readRecords symbol startDate True False)
                   referenceMap indexMap))
                (testLabels (buildPartitions cfg symbol
                   (loadDailyRecords readRecords symbol startDate True False)
                   referenceMap indexMap))
                model = Inr (longReturns, shortReturns)"
        and c: "cells d = addReturns cfg lib shortReturns
                          (addReturns cfg lib longReturns
                             (addR2Score lib oosR2 (addR2Score lib isR2 cells2)))"
      by blast
    have "cells d = addR2Score lib oosR2 (addR2Score lib isR2 cells2)
                      @ addReturns cfg lib longReturns [] @ addReturns cfg lib shortReturns []"
      unfolding c
      using addReturns_append [of cfg lib shortReturns
              "addReturns cfg lib longReturns (addR2Score lib oosR2 (addR2Score lib isR2 cells2))"]
            addReturns_append [of cfg lib longReturns
              "addR2Score lib oosR2 (addR2Score lib isR2 cells2)"]
      by simp
    with bt show ?thesis by blast
  qed
qed


lemma sampleInSampleOnly_dates:
  "loopDates (StartDate sampleInSampleOnly) (EndDate sampleInSampleOnly)
     = [addDays 0 0, addDays 0 1, addDays 0 2, addDays 0 3]"
  by (simp add: loopDates.simps sampleInSampleOnly_def sampleConfiguration_def
        addDays_def nsPerDay_def)

lemma sampleInSampleOnly_dailyExample:
  "dailyExample sampleInSampleOnly ''ETHUSDT'' sampleAssetMap sampleReferenceMap sampleIndexMap
     (addDays 0 0) = None"
  "dailyExample sampleInSampleOnly ''ETHUSDT'' sampleAssetMap sampleReferenceMap sampleIndexMap
     (addDays 0 1) = Some ([Finite (1 / 10)], Finite 1)"
  "dailyExample sampleInSampleOnly ''ETHUSDT'' sampleAssetMap sampleReferenceMap sampleIndexMap
     (addDays 0 2) = Some ([Finite 1], Finite (- 1 / 2))"
  "dailyExample sampleInSampleOnly ''ETHUSDT'' sampleAssetMap sampleReferenceMap sampleIndexMap
     (addDays 0 3) = Some ([Finite (- 1 / 2)], Finite 1)"
  unfolding dailyExample_def sampleIndex_lookups sampleWeekdays
  by (simp_all add: sampleIndex_lookups [unfolded addDays_def nsPerDay_def, simplified]
        sampleInSampleOnly_def sampleConfiguration_def sampleAssetMap_eq sampleReferenceMap_eq
        dailyFeatures_def getRateOfChange_def fsub_def bitcoinSymbol_def
        Thursday_def Friday_def Saturday_def Sunday_def Monday_def Tuesday_def
        addDays_def nsPerDay_def Let_def)

lemma sampleInSampleOnly_partitions:
  "buildPartitions sampleInSampleOnly ''ETHUSDT'' sampleAssetMap sampleReferenceMap sampleIndexMap
     = \<lparr>trainingFeatures = [[Finite (1 / 10)], [Finite 1], [Finite (- 1 / 2)]],
        trainingLabels = [Finite 1, Finite (- 1 / 2), Finite 1],
        testFeatures = [], testLabels = []\<rparr>"
proof -
  have split: "SplitDate sampleInSampleOnly = addDays 0 4"
    by (simp add: sampleInSampleOnly_def)
  have lt: "addDays 0 0 < addDays 0 4" "addDays 0 1 < addDays 0 4"
    "addDays 0 2 < addDays 0 4" "addDays 0 3 < addDays 0 4"
    by (simp_all add: addDays_def nsPerDay_def)
  show ?thesis
    unfolding buildPartitions_def regressionLoop_foldl sampleInSampleOnly_dates
    by (simp add: sampleInSampleOnly_dailyExample appendExample_def split lt emptyPartitions_def)
qed


lemma sample_getRegressionCells:
  "getRegressionCells sampleInSampleOnly sampleLibrary sampleReadRecords sampleLearn
     ''ETHUSDT'' None sampleReferenceMap sampleIndexMap
     = Inr \<lparr>cells = [''ETHUSDT'', ''%.4f'', ''-'', ''%'', ''%'', ''-'', ''-'', ''-'', ''-''],
            oosR2Score = NaN\<rparr>"
proof -
  have ps: "buildPartitions sampleInSampleOnly ''ETHUSDT''
              (loadDailyRecords sampleReadRecords ''ETHUSDT'' None True False)
              sampleReferenceMap sampleIndexMap
            = \<lparr>trainingFeatures = [[Finite (1 / 10)], [Finite 1], [Finite (- 1 / 2)]],
               trainingLabels = [Finite 1, Finite (- 1 / 2), Finite 1],
               testFeatures = [], testLabels = []\<rparr>"
    using sampleInSampleOnly_partitions by (simp add: sampleAssetMap_def)
  show ?thesis
    unfolding getRegressionCells_def ps Let_def
    by (simp add: sampleLearn_def sampleModel_def sampleLibrary_def sampleMean_def
          addParameter_def addR2Score_def addReturns_def analyzeReturns_def getSharpeRatio_def
          getR2Score_def runBacktest_def featureHighlightThreshold_def
          fne_def fge_def fle_def fsub_def Let_def)
qed


lemma sampleStdDev_opposite:
  "sampleStdDev [Finite (1 / 100), Finite (- 1 / 100)] = Finite (1 / 100)"
  by (simp add: sampleStdDev_def sampleMean_def fsub_def Let_def sqrt_example)

lemma sample_getSharpeRatio_opposite:
  "getSharpeRatio sampleConfiguration sampleLibrary [Finite (1 / 100), Finite (- 1 / 100)]
     = Finite (sqrt 52 * (0 - (4 / 100) / 52) / (1 / 100))"
proof -
  have sd: "StdDev sampleLibrary [Finite (1 / 100), Finite (- 1 / 100)] = Finite (1 / 100)"
    using sampleStdDev_opposite by (simp add: sampleLibrary_def)
  have m: "Mean sampleLibrary [Finite (1 / 100), Finite (- 1 / 100)] = Finite 0"
    by (simp add: sampleLibrary_def sampleMean_def)
  show ?thesis
    unfolding getSharpeRatio_def sd m Let_def
    by (simp add: sampleConfiguration_def weeksPerYear_def isInf_def fsub_def)
qed

theorem addReturns_placeholder_witness:
  "foldl fadd (Finite 0) [Finite (1 / 100), Finite (- 1 / 100)] = Finite 0
   \<and> getSharpeRatio sampleConfiguration sampleLibrary [Finite (1 / 100), Finite (- 1 / 100)]
       = Finite (sqrt 52 * (0 - (4 / 100) / 52) / (1 / 100))
   \<and> addReturns sampleConfiguration sampleLibrary [Finite (1 / 100), Finite (- 1 / 100)]
         [''ETHUSDT''] = [''ETHUSDT'', ''-'', ''-'']
   \<and> foldl fadd (Finite 0) [Finite (1 / 100), Finite (3 / 100)] \<noteq> Finite 0
   \<and> addReturns sampleConfiguration sampleLibrary [Finite (1 / 100), Finite (3 / 100)]
         [''ETHUSDT''] = [''ETHUSDT'', ''%'', ''%.2f'']
   \<and> (\<exists>prefix. [''ETHUSDT'', ''%.4f'', ''-'', ''%'', ''%'', ''-'', ''-'', ''-'', ''-'']
                  = prefix @ [''-'', ''-''] @ [''-'', ''-''])"
proof -
  have zero: "foldl fadd (Finite 0) [Finite (1 / 100), Finite (- 1 / 100)] = Finite 0"
    by simp
  have nonzero: "foldl fadd (Finite 0) [Finite (1 / 100), Finite (3 / 100)] \<noteq> Finite 0"
    by simp
  have flat: "addReturns sampleConfiguration sampleLibrary
                [Finite (1 / 100), Finite (- 1 / 100)] [''ETHUSDT''] = [''ETHUSDT'', ''-'', ''-'']"
    using addReturns_placeholder
            [of sampleConfiguration sampleLibrary "[Finite (1 / 100), Finite (- 1 / 100)]"
                "[''ETHUSDT'']"] zero
    by simp
  have active: "addReturns sampleConfiguration sampleLibrary
                [Finite (1 / 100), Finite (3 / 100)] [''ETHUSDT''] = [''ETHUSDT'', ''%'', ''%.2f'']"
    using addReturns_placeholder
            [of sampleConfiguration sampleLibrary "[Finite (1 / 100), Finite (3 / 100)]"
                "[''ETHUSDT'']"] nonzero
    by (simp add: sampleLibrary_def)
  have empty: "addReturns sampleInSampleOnly sampleLibrary [] [] = [''-'', ''-'']"
    using addReturns_placeholder [of sampleInSampleOnly sampleLibrary "[]" "[]"]
    by simp
  have "\<exists>model longReturns shortReturns prefix.
          runBacktest sampleInSampleOnly
           (testFeatures (buildPartitions sampleInSampleOnly ''ETHUSDT''
              (loadDailyRecords sampleReadRecords ''ETHUSDT'' None True False)
              sampleReferenceMap sampleIndexMap))
           (testLabels (buildPartitions sampleInSampleOnly ''ETHUSDT''
              (loadDailyRecords sampleReadRecords ''ETHUSDT'' None True False)
              sampleReferenceMap sampleIndexMap))
           model = Inr (longReturns, shortReturns)
          \<and> cells \<lparr>cells = [''ETHUSDT'', ''%.4f'', ''-'', ''%'', ''%'', ''-'', ''-'', ''-'', ''-''],
                      oosR2Score = NaN\<rparr>
              = prefix @ addReturns sampleInSampleOnly sampleLibrary longReturns []
                       @ addReturns sampleInSampleOnly sampleLibrary shortReturns []"
    using addReturns_placeholder
            [of sampleInSampleOnly sampleLibrary "[]" "[]" sampleReadRecords sampleLearn
                "''ETHUSDT''" None sampleReferenceMap sampleIndexMap
                "\<lparr>cells = [''ETHUSDT'', ''%.4f'', ''-'', ''%'', ''%'', ''-'', ''-'', ''-'', ''-''],
                  oosR2Score = NaN\<rparr>"]
          sample_getRegressionCells
    by blast
  then obtain model longReturns shortReturns prefix where
    bt: "runBacktest sampleInSampleOnly
           (testFeatures (buildPartitions sampleInSampleOnly ''ETHUSDT''
              (loadDailyRecords sampleReadRecords ''ETHUSDT'' None True False)
              sampleReferenceMap sampleIndexMap))
           (testLabels (buildPartitions sampleInSampleOnly ''ETHUSDT''
              (loadDailyRecords sampleReadRecords ''ETHUSDT'' None True False)
              sampleReferenceMap sampleIndexMap))
           model = Inr (longReturns, shortReturns)"
    and row: "[''ETHUSDT'', ''%.4f'', ''-'', ''%'', ''%'', ''-'', ''-'', ''-'', ''-'']
               = prefix @ addReturns sampleInSampleOnly sampleLibrary longReturns []
                        @ addReturns sampleInSampleOnly sampleLibrary shortReturns []"
    by auto
  have ps: "buildPartitions sampleInSampleOnly ''ETHUSDT''
              (loadDailyRecords sampleReadRecords ''ETHUSDT'' None True False)
              sampleReferenceMap sampleIndexMap
            = \<lparr>trainingFeatures = [[Finite (1 / 10)], [Finite 1], [Finite (- 1 / 2)]],
               trainingLabels = [Finite 1, Finite (- 1 / 2), Finite 1],
               testFeatures = [], testLabels = []\<rparr>"
    using sampleInSampleOnly_partitions by (simp add: sampleAssetMap_def)
  from bt have "longReturns = []" "shortReturns = []"
    unfolding ps by (simp_all add: runBacktest_def)
  with row empty have "[''ETHUSDT'', ''%.4f'', ''-'', ''%'', ''%'', ''-'', ''-'', ''-'', ''-'']
                  = prefix @ [''-'', ''-''] @ [''-'', ''-'']"
    by simp
  with zero nonzero flat active sample_getSharpeRatio_opposite show ?thesis by blast
qed

section \<open>Properties of the score of an empty partition\<close>

lemma addReturns_length: "length (addReturns cfg lib returns []) = 2"
  by (simp add: addReturns_def split: prod.splits)

lemma collectData_Inr:
  "collectData results = Inr data \<Longrightarrow> results = map Inr data"
proof (induction results arbitrary: data)
  case Nil
  then show ?case by simp
next
  case (Cons r results)
  then show ?case
    by (cases r) (auto split: sum.splits)
qed

lemma getR2Score_no_features: "getR2Score lib [] labels model = Inr NaN"
  by (simp add: getR2Score_def fsub_def)


lemma getRegressionCells_empty_test:
  assumes r: "getRegressionCells cfg lib readRecords learn symbol startDate referenceMap indexMap
                = Inr d"
    and e: "testFeatures (buildPartitions cfg symbol
              (loadDailyRecords readRecords symbol startDate True False)
              referenceMap indexMap) = []"
  shows "oosR2Score d = NaN"
    and "\<exists>prefix suffix. cells d = prefix @ [FormatPercentage lib NaN 2] @ suffix
                           \<and> length suffix = 4"
proof -
  from getRegressionCells_Inr [OF r] obtain model cells2 isR2 oosR2 longReturns shortReturns
    where s: "getR2Score lib
                (testFeatures (buildPartitions cfg symbol
                   (loadDailyRecords readRecords symbol startDate True False)
                   referenceMap indexMap))
                (testLabels (buildPartitions cfg symbol
                   (loadDailyRecords readRecords symbol startDate True False)
                   referenceMap indexMap))
                model = Inr oosR2"
      and c: "cells d = addReturns cfg lib shortReturns
                        (addReturns cfg lib longReturns
                           (addR2Score lib oosR2 (addR2Score lib isR2 cells2)))"
      and o: "oosR2Score d = oosR2"
    by blast
  from s have nan: "oosR2 = NaN" unfolding e getR2Score_no_features by simp
  from o nan show "oosR2Score d = NaN" by simp
  have eq: "cells d = addR2Score lib isR2 cells2 @ [FormatPercentage lib NaN 2]
                    @ (addReturns cfg lib longReturns [] @ addReturns cfg lib shortReturns [])"
    unfolding c nan
    using addReturns_append [of cfg lib shortReturns
            "addReturns cfg lib longReturns (addR2Score lib NaN (addR2Score lib isR2 cells2))"]
          addReturns_append [of cfg lib longReturns
            "addR2Score lib NaN (addR2Score lib isR2 cells2)"]
    by (simp add: addR2Score_def)
  have len: "length (addReturns cfg lib longReturns [] @ addReturns cfg lib shortReturns []) = 4"
    by (simp add: addReturns_length)
  show "\<exists>prefix suffix. cells d = prefix @ [FormatPercentage lib NaN 2] @ suffix
                          \<and> length suffix = 4"
    by (rule exI [of _ "addR2Score lib isR2 cells2"],
        rule exI [of _ "addReturns cfg lib longReturns [] @ addReturns cfg lib shortReturns []"])
       (simp only: eq len simp_thms)
qed


lemma analyzeData_Inr:
  assumes "analyzeData cfg lib readRecords learn = Inr (rows, medianR2Score)"
  shows "\<exists>data.
           map (\<lambda>a. getRegressionCells cfg lib readRecords learn (Symbol a) (AssetStartDate a)
                       (loadDailyRecords readRecords bitcoinSymbol None True False)
                       (loadDailyRecords readRecords (IndexSymbol cfg) None False True))
               (Assets cfg) = map Inr data
           \<and> rows = map cells data
           \<and> medianR2Score = Median lib (map oosR2Score data)"
proof -
  let ?results = "map (\<lambda>a. getRegressionCells cfg lib readRecords learn (Symbol a)
                       (AssetStartDate a)
                       (loadDailyRecords readRecords bitcoinSymbol None True False)
                       (loadDailyRecords readRecords (IndexSymbol cfg) None False True))
                    (Assets cfg)"
  show ?thesis
  proof (cases "collectData ?results")
    case (Inl e)
    with assms show ?thesis by (simp add: analyzeData_def Let_def)
  next
    case (Inr data)
    from collectData_Inr [OF Inr] have res: "?results = map Inr data" .
    from assms Inr have "rows = map cells data"
      and "medianR2Score = Median lib (map oosR2Score data)"
      by (simp_all add: analyzeData_def Let_def)
    with res show ?thesis by blast
  qed
qed

lemma analyzeData_empty_test:
  assumes a: "analyzeData cfg lib readRecords learn = Inr (rows, medianR2Score)"
    and k: "k < length (Assets cfg)"
    and e: "testFeatures (buildPartitions cfg (Symbol (Assets cfg ! k))
              (loadDailyRecords readRecords (Symbol (Assets cfg ! k))
                 (AssetStartDate (Assets cfg ! k)) True False)
              (loadDailyRecords readRecords bitcoinSymbol None True False)
              (loadDailyRecords readRecords (IndexSymbol cfg) None False True)) = []"
  shows "\<exists>oosR2Scores. medianR2Score = Median lib oosR2Scores
           \<and> length oosR2Scores = length (Assets cfg)
           \<and> oosR2Scores ! k = NaN"
proof -
  from analyzeData_Inr [OF a] obtain data where
    res: "map (\<lambda>a. getRegressionCells cfg lib readRecords learn (Symbol a) (AssetStartDate a)
                       (loadDailyRecords readRecords bitcoinSymbol None True False)
                       (loadDailyRecords readRecords (IndexSymbol cfg) None False True))
               (Assets cfg) = map Inr data"
    and med: "medianR2Score = Median lib (map oosR2Score data)"
    by blast
  from res have len: "length (Assets cfg) = length data"
    by (rule map_eq_imp_length_eq)
  from res have "map (\<lambda>a. getRegressionCells cfg lib readRecords learn (Symbol a)
                       (AssetStartDate a)
                       (loadDailyRecords readRecords bitcoinSymbol None True False)
                       (loadDailyRecords readRecords (IndexSymbol cfg) None False True))
               (Assets cfg) ! k = map Inr data ! k"
    by simp
  with k len have r: "getRegressionCells cfg lib readRecords learn (Symbol (Assets cfg ! k))
                       (AssetStartDate (Assets cfg ! k))
                       (loadDailyRecords readRecords bitcoinSymbol None True False)
                       (loadDailyRecords readRecords (IndexSymbol cfg) None False True)
                    = Inr (data ! k)"
    by simp
  from getRegressionCells_empty_test(1) [OF r e] have "oosR2Score (data ! k) = NaN" .
  with k len have nth: "map oosR2Score data ! k = NaN" by simp
  have l: "length (map oosR2Score data) = length (Assets cfg)" using len by simp
  show ?thesis
    by (rule exI [of _ "map oosR2Score data"]) (simp only: med nth l simp_thms)
qed


text \<open>
  Claim C10. On an empty partition \<open>getR2Score\<close> returns a value: the loop leaves both
  sums at 0 and the score is \<open>1 - 0/0\<close>, which is NaN. When the test partition of an
  asset is empty, this NaN is the out-of-sample score of the asset's result, its
  formatted form is the fifth cell from the end of the row, and it is the entry of the
  asset in the list of scores that \<open>analyzeData\<close> passes to the median.
\<close>

theorem getR2Score_empty_partition:
  "getR2ScoreLoop (Predict model) [] (Mean lib []) 0 [] (Finite 0, Finite 0)
     = Inr (Finite 0, Finite 0)
   \<and> getR2Score lib [] [] model = Inr (fsub (Finite 1) (fdiv (Finite 0) (Finite 0)))
   \<and> getR2Score lib [] [] model = Inr NaN
   \<and> (getRegressionCells cfg lib readRecords learn symbol startDate referenceMap indexMap = Inr d
        \<and> testFeatures (buildPartitions cfg symbol
              (loadDailyRecords readRecords symbol startDate True False)
              referenceMap indexMap) = []
        \<longrightarrow> oosR2Score d = NaN
            \<and> (\<exists>prefix suffix. cells d = prefix @ [FormatPercentage lib NaN 2] @ suffix
                                 \<and> length suffix = 4))
   \<and> (analyzeData cfg lib readRecords learn = Inr (rows, medianR2Score)
        \<and> k < length (Assets cfg)
        \<and> testFeatures (buildPartitions cfg (Symbol (Assets cfg ! k))
              (loadDailyRecords readRecords (Symbol (Assets cfg ! k))
                 (AssetStartDate (Assets cfg ! k)) True False)
              (loadDailyRecords readRecords bitcoinSymbol None True False)
              (loadDailyRecords readRecords (IndexSymbol cfg) None False True)) = []
        \<longrightarrow> (\<exists>oosR2Scores. medianR2Score = Median lib oosR2Scores
                \<and> length oosR2Scores = length (Assets cfg)
                \<and> oosR2Scores ! k = NaN))"
proof -
  have c1: "getR2ScoreLoop (Predict model) [] (Mean lib []) 0 [] (Finite 0, Finite 0)
          = Inr (Finite 0, Finite 0)"
    by simp
  have c2: "getR2Score lib [] [] model = Inr (fsub (Finite 1) (fdiv (Finite 0) (Finite 0)))"
    by (simp add: getR2Score_def)
  have c3: "getR2Score lib [] [] model = Inr NaN"
    by (rule getR2Score_no_features)
  have c4: "getRegressionCells cfg lib readRecords learn symbol startDate referenceMap indexMap
              = Inr d
        \<and> testFeatures (buildPartitions cfg symbol
              (loadDailyRecords readRecords symbol startDate True False)
              referenceMap indexMap) = []
        \<longrightarrow> oosR2Score d = NaN
            \<and> (\<exists>prefix suffix. cells d = prefix @ [FormatPercentage lib NaN 2] @ suffix
                                 \<and> length suffix = 4)"
  proof
    assume a: "getRegressionCells cfg lib readRecords learn symbol startDate referenceMap indexMap
              = Inr d
        \<and> testFeatures (buildPartitions cfg symbol
              (loadDailyRecords readRecords symbol startDate True False)
              referenceMap indexMap) = []"
    show "oosR2Score d = NaN
            \<and> (\<exists>prefix suffix. cells d = prefix @ [FormatPercentage lib NaN 2] @ suffix
                                 \<and> length suffix = 4)"
      by (rule conjI,
          rule getRegressionCells_empty_test(1) [OF conjunct1 [OF a] conjunct2 [OF a]],
          rule getRegressionCells_empty_test(2) [OF conjunct1 [OF a] conjunct2 [OF a]])
  qed
  have c5: "analyzeData cfg lib readRecords learn = Inr (rows, medianR2Score)
        \<and> k < length (Assets cfg)
        \<and> testFeatures (buildPartitions cfg (Symbol (Assets cfg ! k))
              (loadDailyRecords readRecords (Symbol (Assets cfg ! k))
                 (AssetStartDate (Assets cfg ! k)) True False)
              (loadDailyRecords readRecords bitcoinSymbol None True False)
              (loadDailyRecords readRecords (IndexSymbol cfg) None False True)) = []
        \<longrightarrow> (\<exists>oosR2Scores. medianR2Score = Median lib oosR2Scores
                \<and> length oosR2Scores = length (Assets cfg)
                \<and> oosR2Scores ! k = NaN)"
  proof
    assume a: "analyzeData cfg lib readRecords learn = Inr (rows, medianR2Score)
        \<and> k < length (Assets cfg)
        \<and> testFeatures (buildPartitions cfg (Symbol (Assets cfg ! k))
              (loadDailyRecords readRecords (Symbol (Assets cfg ! k))
                 (AssetStartDate (Assets cfg ! k)) True False)
              (loadDailyRecords readRecords bitcoinSymbol None True False)
              (loadDailyRecords readRecords (IndexSymbol cfg) None False True)) = []"
    show "\<exists>oosR2Scores. medianR2Score = Median lib oosR2Scores
                \<and> length oosR2Scores = length (Assets cfg)
                \<and> oosR2Scores ! k = NaN"
      by (rule analyzeData_empty_test
                 [OF conjunct1 [OF a] conjunct1 [OF conjunct2 [OF a]]
                     conjunct2 [OF conjunct2 [OF a]]])
  qed
  show ?thesis
    by (rule conjI [OF c1 conjI [OF c2 conjI [OF c3 conjI [OF c4 c5]]]])
qed

lemma sample_analyzeData:
  "analyzeData sampleInSampleOnly sampleLibrary sampleReadRecords sampleLearn
     = Inr ([[''ETHUSDT'', ''%.4f'', ''-'', ''%'', ''%'', ''-'', ''-'', ''-'', ''-'']], NaN)"
proof -
  have idx: "IndexSymbol sampleInSampleOnly = ''SPX''"
    and assets: "Assets sampleInSampleOnly = [\<lparr>Symbol = ''ETHUSDT'', AssetStartDate = None\<rparr>]"
    by (simp_all add: sampleInSampleOnly_def sampleConfiguration_def)
  have results:
    "map (\<lambda>a. getRegressionCells sampleInSampleOnly sampleLibrary sampleReadRecords sampleLearn
                 (Symbol a) (AssetStartDate a) sampleReferenceMap sampleIndexMap)
         [\<lparr>Symbol = ''ETHUSDT'', AssetStartDate = None\<rparr>]
       = [Inr \<lparr>cells = [''ETHUSDT'', ''%.4f'', ''-'', ''%'', ''%'', ''-'', ''-'', ''-'', ''-''],
               oosR2Score = NaN\<rparr>]"
    by (simp add: sample_getRegressionCells)
  have median: "Median sampleLibrary [NaN] = NaN"
    by (simp add: sampleLibrary_def)
  show ?thesis
    unfolding analyzeData_def idx assets Let_def
    unfolding sampleReferenceMap_def [symmetric] sampleIndexMap_def [symmetric]
    unfolding results
    by (simp add: median)
qed

theorem getR2Score_empty_partition_witness:
  "testFeatures (buildPartitions sampleInSampleOnly ''ETHUSDT''
      (loadDailyRecords sampleReadRecords ''ETHUSDT'' None True False)
      sampleReferenceMap sampleIndexMap) = []
   \<and> getRegressionCells sampleInSampleOnly sampleLibrary sampleReadRecords sampleLearn
       ''ETHUSDT'' None sampleReferenceMap sampleIndexMap
       = Inr \<lparr>cells = [''ETHUSDT'', ''%.4f'', ''-'', ''%'', ''%'', ''-'', ''-'', ''-'', ''-''],
              oosR2Score = NaN\<rparr>
   \<and> (\<exists>prefix suffix.
         [''ETHUSDT'', ''%.4f'', ''-'', ''%'', ''%'', ''-'', ''-'', ''-'', ''-'']
           = prefix @ [FormatPercentage sampleLibrary NaN 2] @ suffix \<and> length suffix = 4)
   \<and> analyzeData sampleInSampleOnly sampleLibrary sampleReadRecords sampleLearn
       = Inr ([[''ETHUSDT'', ''%.4f'', ''-'', ''%'', ''%'', ''-'', ''-'', ''-'', ''-'']], NaN)
   \<and> (\<exists>oosR2Scores. NaN = Median sampleLibrary oosR2Scores
         \<and> length oosR2Scores = length (Assets sampleInSampleOnly)
         \<and> oosR2Scores ! 0 = NaN)"
proof -
  have e: "testFeatures (buildPartitions sampleInSampleOnly ''ETHUSDT''
      (loadDailyRecords sampleReadRecords ''ETHUSDT'' None True False)
      sampleReferenceMap sampleIndexMap) = []"
    using sampleInSampleOnly_partitions by (simp add: sampleAssetMap_def)
  have a0: "Assets sampleInSampleOnly ! 0 = \<lparr>Symbol = ''ETHUSDT'', AssetStartDate = None\<rparr>"
    and k: "0 < length (Assets sampleInSampleOnly)"
    and idx: "IndexSymbol sampleInSampleOnly = ''SPX''"
    by (simp_all add: sampleInSampleOnly_def sampleConfiguration_def)
  have e': "testFeatures (buildPartitions sampleInSampleOnly
              (Symbol (Assets sampleInSampleOnly ! 0))
              (loadDailyRecords sampleReadRecords (Symbol (Assets sampleInSampleOnly ! 0))
                 (AssetStartDate (Assets sampleInSampleOnly ! 0)) True False)
              (loadDailyRecords sampleReadRecords bitcoinSymbol None True False)
              (loadDailyRecords sampleReadRecords (IndexSymbol sampleInSampleOnly) None False True))
            = []"
    unfolding a0 idx using e by (simp add: sampleReferenceMap_def sampleIndexMap_def)
  note inst = getR2Score_empty_partition
               [of sampleModel sampleLibrary sampleInSampleOnly sampleReadRecords sampleLearn
                   "''ETHUSDT''" None sampleReferenceMap sampleIndexMap
                   "\<lparr>cells = [''ETHUSDT'', ''%.4f'', ''-'', ''%'', ''%'', ''-'', ''-'', ''-'', ''-''],
                     oosR2Score = NaN\<rparr>"
                   "[[''ETHUSDT'', ''%.4f'', ''-'', ''%'', ''%'', ''-'', ''-'', ''-'', ''-'']]"
                   NaN 0]
  from inst sample_getRegressionCells e
  have row: "\<exists>prefix suffix.
         cells \<lparr>cells = [''ETHUSDT'', ''%.4f'', ''-'', ''%'', ''%'', ''-'', ''-'', ''-'', ''-''],
                 oosR2Score = NaN\<rparr>
           = prefix @ [FormatPercentage sampleLibrary NaN 2] @ suffix \<and> length suffix = 4"
    by blast
  from inst sample_analyzeData k e'
  have med: "\<exists>oosR2Scores. NaN = Median sampleLibrary oosR2Scores
         \<and> length oosR2Scores = length (Assets sampleInSampleOnly)
         \<and> oosR2Scores ! 0 = NaN"
    by blast
  from row have row': "\<exists>prefix suffix.
         [''ETHUSDT'', ''%.4f'', ''-'', ''%'', ''%'', ''-'', ''-'', ''-'', ''-'']
           = prefix @ [FormatPercentage sampleLibrary NaN 2] @ suffix \<and> length suffix = 4"
    by simp
  from e sample_getRegressionCells row' sample_analyzeData med show ?thesis by blast
qed

end
